theory Spec2Isabelle
  imports Complex_Main
begin

section \<open>GalaxyEnsemble: a shallow embedding of the history generation code\<close>

text \<open>
  The development embeds parts of \<^verbatim>\<open>ares/populations/GalaxyEnsemble.py\<close>:
  \<^verbatim>\<open>tile\<close>, \<^verbatim>\<open>noise_lognormal\<close>, \<^verbatim>\<open>_gen_halo_histories\<close> with its derivation of
  mass accretion rates, the cluster loop of \<^verbatim>\<open>_gen_stars\<close>, \<^verbatim>\<open>deposit_in\<close> and the
  deterministic path of \<^verbatim>\<open>_gen_galaxy_histories\<close>.

  Python floats are modelled by \<^typ>\<open>real\<close>: rounding, \<^verbatim>\<open>inf\<close> and \<^verbatim>\<open>nan\<close>
  are outside the model, so a division whose divisor may vanish is only reasoned about
  under a hypothesis that it does not. A numpy array of one axis is a list, an array of
  two axes a list of rows. Quantities supplied by other modules (cosmology, halo physics,
  the stellar population, random draws) are parameters of the definitions.
\<close>

subsection \<open>Errors and numpy primitives\<close>

datatype py_error = TypeError | ValueError | IndexError | AssertionError | KeyError

text \<open>
  \<^verbatim>\<open>raise NotImplemented('help')\<close> calls the constant \<^verbatim>\<open>NotImplemented\<close>, which is not
  callable: what propagates is a \<^verbatim>\<open>TypeError\<close>. That is the constructor used for every
  such statement of the source.
\<close>

text \<open>\<^verbatim>\<open>np.argmin\<close>: the first index at which the minimum is taken.\<close>

fun argmin_list :: "real list \<Rightarrow> nat" where
  "argmin_list [] = 0"
| "argmin_list [x] = 0"
| "argmin_list (x # y # ys) =
     (let k = argmin_list (y # ys) in if x \<le> (y # ys) ! k then 0 else Suc k)"

definition argmin :: "real list \<Rightarrow> py_error + nat" where
  "argmin xs = (if xs = [] then Inl ValueError else Inr (argmin_list xs))"

text \<open>\<^verbatim>\<open>np.diff\<close> along the only axis: \<^verbatim>\<open>out[k] = a[k+1] - a[k]\<close>.\<close>

fun np_diff :: "real list \<Rightarrow> real list" where
  "np_diff [] = []"
| "np_diff [x] = []"
| "np_diff (x # y # ys) = (y - x) # np_diff (y # ys)"

text \<open>\<^verbatim>\<open>np.cumsum\<close> along the only axis.\<close>

fun cumsum_from :: "real \<Rightarrow> real list \<Rightarrow> real list" where
  "cumsum_from acc [] = []"
| "cumsum_from acc (x # xs) = (acc + x) # cumsum_from (acc + x) xs"

definition np_cumsum :: "real list \<Rightarrow> real list" where
  "np_cumsum xs = cumsum_from 0 xs"

subsection \<open>\<^verbatim>\<open>deposit_in\<close>\<close>

text \<open>
  \<^verbatim>\<open>
  def deposit_in(self, tnow, delay):
      inow = np.argmin(np.abs(tnow - self._arr_t))
      tfut = self._arr_t[inow:]
      ifut = np.argmin(np.abs((tfut - tnow) - delay))
      return inow + ifut
  \<close>
\<close>

definition deposit_in :: "real list \<Rightarrow> real \<Rightarrow> real \<Rightarrow> py_error + nat" where
  "deposit_in arr_t tnow delay =
     (case argmin (map (\<lambda>t. \<bar>tnow - t\<bar>) arr_t) of
        Inl e \<Rightarrow> Inl e
      | Inr inow \<Rightarrow>
          (let tfut = drop inow arr_t in
           case argmin (map (\<lambda>t. \<bar>(t - tnow) - delay\<bar>) tfut) of
             Inl e \<Rightarrow> Inl e
           | Inr ifut \<Rightarrow> Inr (inow + ifut)))"

subsection \<open>\<^verbatim>\<open>tile\<close>\<close>

text \<open>
  \<^verbatim>\<open>
  def tile(self, arr, thin, renorm=False):
      if arr is None:
          return None
      if thin in [0, 1]:
          return arr.copy()
      assert thin % 1 == 0
      new = np.repeat(arr, int(thin), axis=0)
      if renorm:
          return new / float(thin)
      else:
          return new
  \<close>
  Arrays are objects: an array variable holds a reference into a store, and the store
  maps each reference (an index) to the array's contents. \<^verbatim>\<open>arr.copy()\<close>,
  \<^verbatim>\<open>np.repeat\<close> and the division \<^verbatim>\<open>new / float(thin)\<close> each allocate a new array;
  \<^verbatim>\<open>np.repeat\<close> raises \<^verbatim>\<open>ValueError\<close> for a negative count.
\<close>

type_synonym array2d = "real list list"
type_synonym store = "array2d list"
type_synonym ref = nat

definition alloc :: "store \<Rightarrow> array2d \<Rightarrow> store \<times> ref" where
  "alloc h a = (h @ [a], length h)"

text \<open>\<^verbatim>\<open>np.repeat(arr, k, axis=0)\<close>: each row \<open>k\<close> times, in place of the row.\<close>

definition np_repeat :: "'a list \<Rightarrow> nat \<Rightarrow> 'a list" where
  "np_repeat arr k = concat (map (replicate k) arr)"

definition tile :: "store \<Rightarrow> ref option \<Rightarrow> real \<Rightarrow> bool \<Rightarrow> py_error + (store \<times> ref option)" where
  "tile h arr thin renorm =
     (case arr of
        None \<Rightarrow> Inr (h, None)
      | Some a \<Rightarrow>
          if thin = 0 \<or> thin = 1 then
            (let (h1, r) = alloc h (h ! a) in Inr (h1, Some r))
          else if thin - of_int \<lfloor>thin\<rfloor> \<noteq> 0 then Inl AssertionError
          else if thin < 0 then Inl ValueError
          else
            (let (h1, new) = alloc h (np_repeat (h ! a) (nat \<lfloor>thin\<rfloor>)) in
             if renorm then
               (let (h2, r) = alloc h1 (map (map (\<lambda>x. x / thin)) (h1 ! new))
                in Inr (h2, Some r))
             else Inr (h1, Some new)))"

subsection \<open>The deterministic path of \<^verbatim>\<open>_gen_galaxy_histories\<close>\<close>

text \<open>
  The halo histories as \<^verbatim>\<open>_gen_halo_histories\<close> returns them, in ascending redshift:
  the keys \<^verbatim>\<open>z\<close>, \<^verbatim>\<open>t\<close> (Myr), \<^verbatim>\<open>Mh\<close>, \<^verbatim>\<open>nh\<close>, \<^verbatim>\<open>MAR\<close> and the optional \<^verbatim>\<open>SFR\<close>.
\<close>

record halo_histories =
  hh_z :: "real list"
  hh_t :: "real list"
  hh_Mh :: "real list list"
  hh_nh :: "real list list"
  hh_MAR :: "real list list"
  hh_SFR :: "real list list option"

text \<open>\<^verbatim>\<open>pop_quench\<close> is an array of reionisation redshifts or a function of \<open>(z, Mh)\<close>.\<close>

datatype quench = QuenchArray "real list" | QuenchFunc "real \<Rightarrow> real \<Rightarrow> bool"

text \<open>
  The parameters read on this path. \<^verbatim>\<open>fbar_over_fcdm\<close> is the cosmology's attribute,
  \<^verbatim>\<open>guide_SFE\<close> stands for \<^verbatim>\<open>self.guide.SFE\<close>, \<^verbatim>\<open>VirialMass\<close> for
  \<^verbatim>\<open>self.halos.VirialMass(z, pop_Tmin)\<close>. \<^verbatim>\<open>duty_off\<close> is the mask \<^verbatim>\<open>off\<close> that the
  duty-cycle block draws at random, \<open>None\<close> when \<^verbatim>\<open>pop_fduty\<close> is \<^verbatim>\<open>None\<close>.
\<close>

record evolver_pf =
  fbar_over_fcdm :: real
  pop_mass_yield :: real
  pop_update_dt :: string
  conserve_memory :: bool
  pop_Mmin :: "real option"
  pop_quench :: "quench option"
  guide_SFE :: "real \<Rightarrow> real \<Rightarrow> real"
  VirialMass :: "real \<Rightarrow> real"
  duty_off :: "(nat \<Rightarrow> nat \<Rightarrow> bool) option"

text \<open>
  The entries of the result that the model keeps: \<^verbatim>\<open>z\<close>, \<^verbatim>\<open>t\<close>, \<^verbatim>\<open>Mh\<close>, \<^verbatim>\<open>MAR\<close>,
  \<^verbatim>\<open>nh\<close> (each flipped to ascending time), \<^verbatim>\<open>SFR\<close> and \<^verbatim>\<open>Ms\<close>. The entries for
  dust, metals, positions and supernovae are left out.
\<close>

record galaxy_histories =
  out_z :: "real list"
  out_t :: "real list"
  out_Mh :: "real list list"
  out_MAR :: "real list list"
  out_nh :: "real list list"
  out_SFR :: "real list list"
  out_Ms :: "real list list"

text \<open>An array of \<open>n\<close> rows and \<open>m\<close> columns given by its entries.\<close>

definition tabulate2 :: "nat \<Rightarrow> nat \<Rightarrow> (nat \<Rightarrow> nat \<Rightarrow> real) \<Rightarrow> real list list" where
  "tabulate2 n m f = map (\<lambda>i. map (\<lambda>k. f i k) [0..<m]) [0..<n]"

text \<open>
  \<^verbatim>\<open>
  z = halos['z'][-1::-1];  t = halos['t'][-1::-1]
  Mh = halos['Mh'][:,-1::-1];  nh = halos['nh'][:,-1::-1]
  MAR = halos['MAR'][:,-1::-1]
  dt = np.abs(np.diff(t)) * 1e6
  fmr = self.pf['pop_mass_yield'];  fml = (1. - fmr)
  if 'SFR' in halos:
      SFR = halos['SFR'][:,-1::-1]
  else:
      SFR = self.guide.SFE(z=z2d, Mh=Mh)
      np.multiply(SFR, MAR, out=SFR)
      SFR *= fb
  if self.pf['pop_fduty'] is not None:
      ...
      SFR[off==True] = 0
  if self.pf['conserve_memory']:
      raise NotImplemented('this is deprecated')
  Ms = np.hstack((zeros_like_Mh, np.cumsum(SFR[:,0:-1] * dt * fml, axis=1)))
  if self.pf['pop_Mmin'] is not None:
      above_Mmin = Mh >= self.pf['pop_Mmin']
  else:
      Mmin = self.halos.VirialMass(z2d, self.pf['pop_Tmin'])
      above_Mmin = Mh >= Mmin
  SFR *= above_Mmin
  if self.pf['pop_quench'] is not None:
      zreion = self.pf['pop_quench']
      if type(zreion) in [np.ndarray, np.ma.core.MaskedArray]:
          assert zreion.size == Nhalos
          is_quenched = np.logical_and(z2d <= zreion[:,None], Mh < self.pf['pop_Mmin'])
      else:
          is_quenched = zreion(z=z2d, Mh=Mh)
      SFR *= np.logical_not(is_quenched)
  ...
  results = {'nh': nh, 'Mh': Mh, 'MAR': MAR, 't': t, 'z': z, ..., 'SFR': SFR, 'Ms': Ms, ...}
  \<close>
  This is the code after the branch on \<^verbatim>\<open>pop_sample_cmf\<close>. All arrays share the shape
  \<open>[N, Nt]\<close> of \<^verbatim>\<open>Mh\<close>; where numpy would fail to broadcast, the model returns
  \<^verbatim>\<open>ValueError\<close> (broadcasting of an axis of length one is not modelled). The later
  blocks (dust, metals, mergers) assign neither \<^verbatim>\<open>SFR\<close> nor \<^verbatim>\<open>Ms\<close>, except that
  \<^verbatim>\<open>pop_mergers == -1\<close> keeps only the rows of the main branch, which is not modelled.
\<close>

text \<open>\<^verbatim>\<open>dt = np.abs(np.diff(t)) * 1e6\<close> on the flipped times: the steps in years.\<close>

definition evolver_dt :: "halo_histories \<Rightarrow> real list" where
  "evolver_dt halos = map (\<lambda>d. \<bar>d\<bar> * 10 ^ 6) (np_diff (rev (hh_t halos)))"

text \<open>
  The array \<^verbatim>\<open>SFR\<close> after the duty-cycle block, as the line that computes \<^verbatim>\<open>Ms\<close>
  reads it.
\<close>

definition SFR_duty :: "evolver_pf \<Rightarrow> halo_histories \<Rightarrow> real list list" where
  "SFR_duty pf halos =
     (let Nhalos = length (hh_Mh halos);
          z = rev (hh_z halos);
          Nt = length z;
          Mh = map rev (hh_Mh halos);
          MAR = map rev (hh_MAR halos);
          fb = fbar_over_fcdm pf;
          SFR = (case hh_SFR halos of
                   Some S \<Rightarrow> map rev S
                 | None \<Rightarrow> tabulate2 Nhalos Nt
                     (\<lambda>i k. guide_SFE pf (z ! k) (Mh ! i ! k) * (MAR ! i ! k) * fb))
      in case duty_off pf of
           None \<Rightarrow> SFR
         | Some off \<Rightarrow> tabulate2 Nhalos Nt (\<lambda>i k. if off i k then 0 else SFR ! i ! k))"

text \<open>The entries of the masks \<^verbatim>\<open>above_Mmin\<close> and \<^verbatim>\<open>is_quenched\<close>, on the flipped arrays.\<close>

definition above_Mmin :: "evolver_pf \<Rightarrow> real list \<Rightarrow> real list list \<Rightarrow> nat \<Rightarrow> nat \<Rightarrow> bool" where
  "above_Mmin pf z Mh i k =
     (Mh ! i ! k \<ge> (case pop_Mmin pf of Some m \<Rightarrow> m | None \<Rightarrow> VirialMass pf (z ! k)))"

definition is_quenched :: "evolver_pf \<Rightarrow> real list \<Rightarrow> real list list \<Rightarrow> nat \<Rightarrow> nat \<Rightarrow> bool" where
  "is_quenched pf z Mh i k =
     (case pop_quench pf of
        None \<Rightarrow> False
      | Some (QuenchArray zreion) \<Rightarrow>
          (case pop_Mmin pf of
             Some m \<Rightarrow> z ! k \<le> zreion ! i \<and> Mh ! i ! k < m
           | None \<Rightarrow> False)
      | Some (QuenchFunc f) \<Rightarrow> f (z ! k) (Mh ! i ! k))"

definition gen_galaxy_histories :: "evolver_pf \<Rightarrow> halo_histories \<Rightarrow> py_error + galaxy_histories" where
  "gen_galaxy_histories pf halos =
     (if take 6 (pop_update_dt pf) \<noteq> ''native'' then Inl AssertionError
      else
        let Nhalos = length (hh_Mh halos);
            z = rev (hh_z halos);
            t = rev (hh_t halos);
            Nt = length z;
            Mh = map rev (hh_Mh halos);
            nh = map rev (hh_nh halos);
            MAR = map rev (hh_MAR halos);
            dt = evolver_dt halos;
            fml = 1 - pop_mass_yield pf
        in
        if length t \<noteq> Nt \<or> length MAR \<noteq> Nhalos
           \<or> (\<exists>row \<in> set Mh. length row \<noteq> Nt) \<or> (\<exists>row \<in> set MAR. length row \<noteq> Nt)
           \<or> (case hh_SFR halos of None \<Rightarrow> False
               | Some S \<Rightarrow> length S \<noteq> Nhalos \<or> (\<exists>row \<in> set S. length row \<noteq> Nt))
        then Inl ValueError
        else
          let SFR = SFR_duty pf halos in
          if conserve_memory pf then Inl TypeError
          else
            let Ms = map (\<lambda>row. 0 # np_cumsum (map (\<lambda>(s, d). s * d * fml) (zip (butlast row) dt)))
                       SFR;
                SFR_cut = tabulate2 Nhalos Nt
                            (\<lambda>i k. SFR ! i ! k * (if above_Mmin pf z Mh i k then 1 else 0))
            in
            (case pop_quench pf of
               None \<Rightarrow>
                 Inr \<lparr>out_z = z, out_t = t, out_Mh = Mh, out_MAR = MAR, out_nh = nh,
                      out_SFR = SFR_cut, out_Ms = Ms\<rparr>
             | Some q \<Rightarrow>
                 (case (case q of
                          QuenchArray zreion \<Rightarrow>
                            if length zreion \<noteq> Nhalos then Inl AssertionError
                            else if pop_Mmin pf = None then Inl TypeError
                            else Inr ()
                        | QuenchFunc f \<Rightarrow> Inr ()) of
                    Inl e \<Rightarrow> Inl e
                  | Inr _ \<Rightarrow>
                      Inr \<lparr>out_z = z, out_t = t, out_Mh = Mh, out_MAR = MAR, out_nh = nh,
                           out_SFR = tabulate2 Nhalos Nt
                             (\<lambda>i k. SFR_cut ! i ! k * (if is_quenched pf z Mh i k then 0 else 1)),
                           out_Ms = Ms\<rparr>)))"

subsection \<open>Mass accretion rates in \<^verbatim>\<open>_gen_halo_histories\<close>\<close>

text \<open>
  The raw histories returned by \<^verbatim>\<open>load\<close>, in ascending redshift: \<^verbatim>\<open>z\<close>, \<^verbatim>\<open>Mh\<close>,
  \<^verbatim>\<open>nh\<close> and the optional keys \<^verbatim>\<open>MAR\<close>, \<^verbatim>\<open>MAR_tot\<close>, \<^verbatim>\<open>MAR_acc\<close> and \<^verbatim>\<open>SFR\<close>.
\<close>

record raw_histories =
  raw_z :: "real list"
  raw_Mh :: "real list list"
  raw_nh :: "real list list"
  raw_MAR :: "real list list option"
  raw_MAR_tot :: "real list list option"
  raw_MAR_acc :: "real list list option"
  raw_SFR :: "real list list option"

text \<open>
  The parameters read by \<^verbatim>\<open>_gen_halo_histories\<close>. \<^verbatim>\<open>t_of_z\<close> is the
  cosmology's function (seconds), \<^verbatim>\<open>s_per_myr\<close> the constant of
  \<^verbatim>\<open>physics.Constants\<close>; \<^verbatim>\<open>pop_histories_is_None\<close> is the test
  \<^verbatim>\<open>self.pf['pop_histories'] is None\<close>, \<^verbatim>\<open>pop_mergers\<close> is read for its truth value,
  \<^verbatim>\<open>guide_Mmin\<close> stands for \<^verbatim>\<open>self.guide.Mmin\<close>.
\<close>

record halo_pf =
  pop_thin_hist :: real
  pop_histories_is_None :: bool
  pop_scatter_mar :: real
  pop_scatter_env :: real
  pop_mergers :: int
  t_of_z :: "real \<Rightarrow> real"
  s_per_myr :: real
  pop_synth_minimal :: bool
  pop_synth_zmin :: real
  pop_synth_zmax :: real
  guide_Mmin :: "real \<Rightarrow> real"

definition tiny_MAR :: real where
  "tiny_MAR = 1 / 10 ^ 30"

text \<open>
  \<^verbatim>\<open>
  thin = self.pf['pop_thin_hist']
  if thin > 1:
      assert self.pf['pop_histories'] is None
  sigma_mar = self.pf['pop_scatter_mar']
  sigma_env = self.pf['pop_scatter_env']
  zall = raw['z']
  assert np.all(np.diff(zall) > 0)
  nh_raw = raw['nh']
  Mh_raw = raw['Mh']
  if ('MAR' not in raw) and ('MAR_tot' not in raw):
      assert thin < 2
      assert sigma_mar == sigma_env == 0
      dM = -1. * np.diff(Mh_raw, axis=1)
      t = self.cosm.t_of_z(zall) * 1e6 / s_per_myr
      dt = -1. * np.diff(t) # in yr already
      MAR_z = dM / dt
      zeros = np.ones((Mh_raw.shape[0], 1)) * tiny_MAR
      mar_raw = np.hstack((zeros, MAR_z))
  else:
      if 'MAR' in raw:
          mar_raw = raw['MAR']
      elif self.pf['pop_mergers']:
          mar_raw = raw['MAR_acc']
      else:
          mar_raw = raw['MAR_tot']
  \<close>
  The quotient \<^verbatim>\<open>dM / dt\<close> needs rows of \<^verbatim>\<open>dM\<close> as long as \<^verbatim>\<open>dt\<close>; otherwise
  the model returns \<^verbatim>\<open>ValueError\<close> (broadcasting of an axis of length one is not
  modelled).
\<close>

text \<open>\<^verbatim>\<open>-1. * np.diff(a)\<close> along the last axis.\<close>

definition neg_diff :: "real list \<Rightarrow> real list" where
  "neg_diff a = map (\<lambda>d. - 1 * d) (np_diff a)"

text \<open>\<^verbatim>\<open>self.cosm.t_of_z(zall) * 1e6 / s_per_myr\<close>: the times of the grid, in years.\<close>

definition t_years :: "halo_pf \<Rightarrow> real list \<Rightarrow> real list" where
  "t_years pf zall = map (\<lambda>z. t_of_z pf z * 10 ^ 6 / s_per_myr pf) zall"

definition mar_raw :: "halo_pf \<Rightarrow> raw_histories \<Rightarrow> py_error + real list list" where
  "mar_raw pf raw =
     (let thin = pop_thin_hist pf;
          sigma_mar = pop_scatter_mar pf;
          sigma_env = pop_scatter_env pf;
          zall = raw_z raw;
          Mh_raw = raw_Mh raw
      in
      if thin > 1 \<and> \<not> pop_histories_is_None pf then Inl AssertionError
      else if \<not> list_all (\<lambda>d. d > 0) (np_diff zall) then Inl AssertionError
      else if raw_MAR raw = None \<and> raw_MAR_tot raw = None then
        if \<not> thin < 2 then Inl AssertionError
        else if \<not> (sigma_mar = sigma_env \<and> sigma_env = 0) then Inl AssertionError
        else
          let dM = map neg_diff Mh_raw;
              t = t_years pf zall;
              dt = neg_diff t
          in
          if \<exists>row \<in> set dM. length row \<noteq> length dt then Inl ValueError
          else Inr (map (\<lambda>row. tiny_MAR # map (\<lambda>(m, d). m / d) (zip row dt)) dM)
      else
        (case raw_MAR raw of
           Some m \<Rightarrow> Inr m
         | None \<Rightarrow>
             if pop_mergers pf \<noteq> 0 then
               (case raw_MAR_acc raw of Some m \<Rightarrow> Inr m | None \<Rightarrow> Inl KeyError)
             else
               (case raw_MAR_tot raw of Some m \<Rightarrow> Inr m | None \<Rightarrow> Inl KeyError)))"

text \<open>
  One halo on the redshifts 0 and 1, of mass \<open>4 \<times> 10\<^sup>1\<^sup>0\<close> at \<open>z = 0\<close> and \<open>10\<^sup>1\<^sup>0\<close> at
  \<open>z = 1\<close>, in a cosmology whose age is \<open>10\<^sup>1\<^sup>0 / (1 + z)\<close> years.
\<close>

definition mar_example_pf :: halo_pf where
  "mar_example_pf = \<lparr>pop_thin_hist = 0, pop_histories_is_None = True, pop_scatter_mar = 0,
                      pop_scatter_env = 0, pop_mergers = 0,
                      t_of_z = (\<lambda>z. 31557600 * 10 ^ 10 / (1 + z)),
                      s_per_myr = 31557600 * 10 ^ 6,
                      pop_synth_minimal = False, pop_synth_zmin = 0, pop_synth_zmax = 30,
                      guide_Mmin = (\<lambda>z. 10 ^ 8)\<rparr>"

definition mar_example_raw :: raw_histories where
  "mar_example_raw = \<lparr>raw_z = [0, 1], raw_Mh = [[4 * 10 ^ 10, 10 ^ 10]], raw_nh = [[1, 1]],
                       raw_MAR = None, raw_MAR_tot = None, raw_MAR_acc = None,
                       raw_SFR = None\<rparr>"

subsection \<open>\<^verbatim>\<open>noise_lognormal\<close> and the scatter of the accretion rates\<close>

text \<open>
  \<^verbatim>\<open>
  def noise_lognormal(self, arr, sigma):
      lognoise = np.random.normal(scale=sigma, size=arr.size)
      noise = np.power(10, np.log10(arr) + np.reshape(lognoise, arr.shape)) - arr
      return noise
  \<close>
  For one element \<open>a\<close> of the array and the normal draw \<open>x\<close> made for it, of mean zero and
  standard deviation \<^verbatim>\<open>sigma\<close>. At \<open>a = 0\<close> numpy gives \<^verbatim>\<open>log10(0) = -inf\<close> and
  \<^verbatim>\<open>10 ** -inf = 0\<close>; a negative element gives \<^verbatim>\<open>nan\<close>, which is outside the model.
\<close>

definition noise_lognormal :: "real \<Rightarrow> real \<Rightarrow> real" where
  "noise_lognormal a x = (if a = 0 then 0 else 10 powr (log 10 a + x) - a)"

text \<open>
  \<^verbatim>\<open>
  noise = self.noise_lognormal(mar, sigma_mar)
  mar += noise
  # Normalize by mean of log-normal to preserve mean MAR?
  mar /= np.exp(0.5 * sigma_mar**2)
  \<close>
  for one element of \<^verbatim>\<open>mar\<close> and its draw.
\<close>

definition scatter_mar :: "real \<Rightarrow> real \<Rightarrow> real \<Rightarrow> real" where
  "scatter_mar a sigma x = (a + noise_lognormal a x) / exp (1 / 2 * sigma\<^sup>2)"

text \<open>
  An operator on functions of the draw that is homogeneous and takes \<open>exp (s * x)\<close> to
  \<open>exp (s\<^sup>2 * sigma\<^sup>2 / 2)\<close>, the value of the mean over a normal draw of standard deviation
  \<open>sigma\<close>: it shows that the two properties of the mean used below can hold together.
\<close>

definition exp_mean :: "real \<Rightarrow> (real \<Rightarrow> real) \<Rightarrow> real" where
  "exp_mean sigma f = f 0 * exp ((ln (f 1 / f 0))\<^sup>2 * sigma\<^sup>2 / 2)"

subsection \<open>\<^verbatim>\<open>_gen_halo_histories\<close>\<close>

text \<open>The contents of the array that \<^verbatim>\<open>tile\<close> returns.\<close>

definition tile_rows :: "real list list \<Rightarrow> real \<Rightarrow> bool \<Rightarrow> py_error + real list list" where
  "tile_rows arr thin renorm =
     (if thin = 0 \<or> thin = 1 then Inr arr
      else if thin - of_int \<lfloor>thin\<rfloor> \<noteq> 0 then Inl AssertionError
      else if thin < 0 then Inl ValueError
      else
        let new = np_repeat arr (nat \<lfloor>thin\<rfloor>) in
        if renorm then Inr (map (map (\<lambda>x. x / thin)) new) else Inr new)"

text \<open>
  \<^verbatim>\<open>
  if self.pf['pop_synth_minimal'] and (self.pf['pop_histories'] is None):
      Mmin = self.guide.Mmin(zall)
      is_viable = Mh_raw > Mmin[:,None]
      any_viable = np.sum(is_viable, axis=1)
      ilo = np.min(np.argwhere(any_viable > 0))
      ihi = np.max(np.argwhere(any_viable > 0)) + 1
      zok = np.logical_and(zall >= self.pf['pop_synth_zmin'], zall <= self.pf['pop_synth_zmax'])
      zall = zall[zok==1]
      Mh_raw = Mh_raw[ilo:ihi,zok==1]
      nh_raw = nh_raw[ilo:ihi,zok==1]
      mar_raw = mar_raw[ilo:ihi,zok==1]
  \<close>
  The comparison with \<^verbatim>\<open>Mmin[:,None]\<close> needs as many halos as redshifts (halo \<open>i\<close> is
  compared with \<^verbatim>\<open>Mmin[i]\<close>), and the masks need arrays of the shape of the grid;
  otherwise the model returns \<^verbatim>\<open>ValueError\<close>, as it does when no halo is viable
  (\<^verbatim>\<open>np.min\<close> of an empty array).
\<close>

definition select_cols :: "(real \<Rightarrow> bool) \<Rightarrow> real list \<Rightarrow> real list \<Rightarrow> real list" where
  "select_cols zok zall row = map snd (filter (\<lambda>(z, x). zok z) (zip zall row))"

definition minimal_trim ::
  "halo_pf \<Rightarrow> real list \<Rightarrow> real list list \<Rightarrow> real list list \<Rightarrow> real list list
     \<Rightarrow> py_error + (real list \<times> real list list \<times> real list list \<times> real list list)" where
  "minimal_trim pf zall Mh_raw nh_raw mar =
     (if pop_synth_minimal pf \<and> pop_histories_is_None pf then
        let N = length Mh_raw;
            Nz = length zall;
            viable = filter (\<lambda>i. \<exists>k \<in> set [0..<Nz]. Mh_raw ! i ! k > guide_Mmin pf (zall ! i)) [0..<N]
        in
        if N \<noteq> Nz \<or> length nh_raw \<noteq> N \<or> length mar \<noteq> N
           \<or> (\<exists>row \<in> set Mh_raw \<union> set nh_raw \<union> set mar. length row \<noteq> Nz)
           \<or> viable = []
        then Inl ValueError
        else
          let ilo = hd viable;
              ihi = last viable + 1;
              zok = (\<lambda>z. z \<ge> pop_synth_zmin pf \<and> z \<le> pop_synth_zmax pf);
              cut = (\<lambda>a. map (select_cols zok zall) (take (ihi - ilo) (drop ilo a)))
          in Inr (filter zok zall, cut Mh_raw, cut nh_raw, cut mar)
      else Inr (zall, Mh_raw, nh_raw, mar))"

text \<open>
  The normal draws of \<^verbatim>\<open>noise_normal\<close> and of \<^verbatim>\<open>noise_lognormal\<close>, one for each entry
  of \<^verbatim>\<open>mar\<close>.
\<close>

record halo_draws =
  env_draw :: "nat \<Rightarrow> nat \<Rightarrow> real"
  mar_draw :: "nat \<Rightarrow> nat \<Rightarrow> real"

text \<open>An array with the entries \<open>f i k (a[i][k])\<close>.\<close>

definition map_entries :: "(nat \<Rightarrow> nat \<Rightarrow> real \<Rightarrow> real) \<Rightarrow> real list list \<Rightarrow> real list list" where
  "map_entries f a =
     map (\<lambda>(i, row). map (\<lambda>(k, x). f i k x) (zip [0..<length row] row)) (zip [0..<length a] a)"

text \<open>
  \<^verbatim>\<open>
  (mar_raw as above, then the cut under pop_synth_minimal)
  if thin > 0:
      nh = self.tile(nh_raw, thin, True)
      Mh = self.tile(Mh_raw, thin)
  else:
      nh = nh_raw
      Mh = Mh_raw
  mar = self.tile(mar_raw, thin)
  if sigma_env > 0:
      mar *= (1. + self.noise_normal(mar, sigma_env))
  if sigma_mar > 0:
      np.random.seed(self.pf['pop_scatter_mar_seed'])
      noise = self.noise_lognormal(mar, sigma_mar)
      mar += noise
      mar /= np.exp(0.5 * sigma_mar**2)
  histories = {'Mh': Mh, 'MAR': mar, 'nh': nh}
  histories['z'] = zall
  t = np.array([self.cosm.t_of_z(zall[_i]) for _i in range(zall.size)]) / s_per_myr
  histories['t'] = t.astype(dtype)
  if 'SFR' in raw:
      histories['SFR'] = raw['SFR']
  return histories
  \<close>
  The keys \<^verbatim>\<open>zthin\<close>, \<^verbatim>\<open>rand\<close>, \<^verbatim>\<open>Z\<close>, \<^verbatim>\<open>children\<close> and \<^verbatim>\<open>pos\<close> are left out;
  \<^verbatim>\<open>astype\<close> changes the precision only.
\<close>

definition gen_halo_histories ::
  "halo_pf \<Rightarrow> halo_draws \<Rightarrow> raw_histories \<Rightarrow> py_error + halo_histories" where
  "gen_halo_histories pf draws raw =
     (let thin = pop_thin_hist pf;
          sigma_mar = pop_scatter_mar pf;
          sigma_env = pop_scatter_env pf
      in
      case mar_raw pf raw of
        Inl e \<Rightarrow> Inl e
      | Inr mar0 \<Rightarrow>
          (case minimal_trim pf (raw_z raw) (raw_Mh raw) (raw_nh raw) mar0 of
             Inl e \<Rightarrow> Inl e
           | Inr (zall, Mh_raw, nh_raw, mar1) \<Rightarrow>
               (case (if thin > 0 then tile_rows nh_raw thin True else Inr nh_raw) of
                  Inl e \<Rightarrow> Inl e
                | Inr nh \<Rightarrow>
                    (case (if thin > 0 then tile_rows Mh_raw thin False else Inr Mh_raw) of
                       Inl e \<Rightarrow> Inl e
                     | Inr Mh \<Rightarrow>
                         (case tile_rows mar1 thin False of
                            Inl e \<Rightarrow> Inl e
                          | Inr mar2 \<Rightarrow>
                              let mar3 = (if sigma_env > 0
                                          then map_entries (\<lambda>i k x. x * (1 + env_draw draws i k)) mar2
                                          else mar2);
                                  mar4 = (if sigma_mar > 0
                                          then map_entries
                                                 (\<lambda>i k x. scatter_mar x sigma_mar (mar_draw draws i k))
                                                 mar3
                                          else mar3)
                              in Inr \<lparr>hh_z = zall,
                                      hh_t = map (\<lambda>z. t_of_z pf z / s_per_myr pf) zall,
                                      hh_Mh = Mh, hh_nh = nh, hh_MAR = mar4,
                                      hh_SFR = raw_SFR raw\<rparr>)))))"


subsection \<open>A two-step ensemble of three halos\<close>

text \<open>
  Three trajectories of halo mass \<open>10\<^sup>1\<^sup>0\<close>, \<open>10\<^sup>1\<^sup>1\<close> and \<open>10\<^sup>1\<^sup>2\<close> solar masses at the two
  redshifts 5 and 6, with baryon fraction 0.16, a constant star formation efficiency of
  0.05, and neither duty cycle nor quenching. The raw histories hold the masses only, so
  the accretion rates are derived from them.
\<close>

definition scenario_raw :: raw_histories where
  "scenario_raw = \<lparr>raw_z = [5, 6],
                    raw_Mh = [[10 ^ 10, 10 ^ 10], [10 ^ 11, 10 ^ 11], [10 ^ 12, 10 ^ 12]],
                    raw_nh = [[1, 1], [1, 1], [1, 1]],
                    raw_MAR = None, raw_MAR_tot = None, raw_MAR_acc = None, raw_SFR = None\<rparr>"

definition scenario_draws :: halo_draws where
  "scenario_draws = \<lparr>env_draw = (\<lambda>i k. 0), mar_draw = (\<lambda>i k. 0)\<rparr>"

definition scenario_pf :: evolver_pf where
  "scenario_pf = \<lparr>fbar_over_fcdm = 16 / 100, pop_mass_yield = 1 / 2, pop_update_dt = ''native'',
                   conserve_memory = False, pop_Mmin = Some (10 ^ 8), pop_quench = None,
                   guide_SFE = (\<lambda>z Mh. 5 / 100), VirialMass = (\<lambda>z. 10 ^ 8),
                   duty_off = None\<rparr>"





text \<open>
  The halo histories derived from the raw masses in the cosmology of age
  \<open>10\<^sup>1\<^sup>0 / (1 + z)\<close> years (\<open>t\<close> in Myr), and the result of the evolver on them.
\<close>

definition scenario_derived_halos :: halo_histories where
  "scenario_derived_halos =
     \<lparr>hh_z = [5, 6], hh_t = [5000 / 3, 10000 / 7],
      hh_Mh = [[10 ^ 10, 10 ^ 10], [10 ^ 11, 10 ^ 11], [10 ^ 12, 10 ^ 12]],
      hh_nh = [[1, 1], [1, 1], [1, 1]],
      hh_MAR = [[1 / 10 ^ 30, 0], [1 / 10 ^ 30, 0], [1 / 10 ^ 30, 0]],
      hh_SFR = None\<rparr>"

definition scenario_derived_out :: galaxy_histories where
  "scenario_derived_out =
     \<lparr>out_z = [6, 5], out_t = [10000 / 7, 5000 / 3],
      out_Mh = [[10 ^ 10, 10 ^ 10], [10 ^ 11, 10 ^ 11], [10 ^ 12, 10 ^ 12]],
      out_MAR = [[0, 1 / 10 ^ 30], [0, 1 / 10 ^ 30], [0, 1 / 10 ^ 30]],
      out_nh = [[1, 1], [1, 1], [1, 1]],
      out_SFR = [[0, 8 / 10 ^ 33], [0, 8 / 10 ^ 33], [0, 8 / 10 ^ 33]],
      out_Ms = [[0, 0], [0, 0], [0, 0]]\<rparr>"

subsection \<open>The cluster loop of \<^verbatim>\<open>_gen_stars\<close>\<close>

text \<open>The parameters read by \<^verbatim>\<open>_gen_stars\<close>.\<close>

record stars_pf =
  pop_fstar_cloud :: real
  pop_delay_sne_feedback :: int
  pop_delay_rad_feedback :: int
  pop_sample_imf :: bool
  pop_feedback_rad :: bool
  pop_coupling_sne :: real
  pop_coupling_rad :: real

text \<open>
  What the call reads from other modules and from the arrays of the trajectory:
  \<^verbatim>\<open>vesc\<close> is \<^verbatim>\<open>self.halos.EscapeVelocity(z, Mh)\<close>, \<^verbatim>\<open>avg_sn_delay\<close> the attribute of
  \<^verbatim>\<open>self._stars\<close>, \<^verbatim>\<open>Lavg\<close> and \<^verbatim>\<open>tavg\<close> the two quotients of \<^verbatim>\<open>np.trapz\<close> over the
  tables of \<^verbatim>\<open>self._stars\<close>, \<^verbatim>\<open>tab_imf_mc\<close> the bin centres \<^verbatim>\<open>m_cen\<close>, \<^verbatim>\<open>g_per_msun\<close>
  and \<^verbatim>\<open>s_per_yr\<close> the constants of \<^verbatim>\<open>physics.Constants\<close>. \<^verbatim>\<open>arr_t\<close> is
  \<^verbatim>\<open>self._arr_t\<close> (Myr), \<^verbatim>\<open>Mg\<close> is \<^verbatim>\<open>self._arr_Mg_c[idnum]\<close>, \<^verbatim>\<open>N_SN_p\<close> is
  \<^verbatim>\<open>self._arr_SN[idnum]\<close> and \<^verbatim>\<open>E_UV_p\<close> is \<^verbatim>\<open>self._arr_UV[idnum]\<close>, each read once
  before the loop.
\<close>

record ctx =
  cpf :: stars_pf
  vesc :: real
  avg_sn_delay :: real
  Lavg :: real
  tavg :: real
  tab_imf_mc :: "real list"
  g_per_msun :: real
  s_per_yr :: real
  arr_t :: "real list"
  idnum :: nat
  Mg :: real
  N_SN_p :: real
  E_UV_p :: real

text \<open>
  The random draws of one pass through the loop: \<^verbatim>\<open>Mc\<close> is
  \<^verbatim>\<open>np.interp(r, self.tab_cdf, self.tab_Mcl)\<close> for the uniform draw \<^verbatim>\<open>r\<close>, \<^verbatim>\<open>hist\<close> the
  histogram of the stars drawn when the IMF is sampled, \<^verbatim>\<open>poisson\<close> the value of
  \<^verbatim>\<open>np.random.poisson(lam)\<close>, \<^verbatim>\<open>delays\<close> the value of \<^verbatim>\<open>self._stars.draw_delays(N_MS)\<close>.
\<close>

record draw =
  Mc :: real
  hist :: "nat list"
  poisson :: nat
  delays :: "real list"

text \<open>The variables the loop assigns, and the array \<^verbatim>\<open>self._arr_SN\<close> it writes into.\<close>

record lstate =
  Ms :: real
  Mw :: real
  Mw_rad :: real
  N_SN_0 :: real
  E_UV_0 :: real
  ct :: nat
  imf :: "real list"
  arr_SN :: "real list"

text \<open>\<^verbatim>\<open>dt = (self._arr_t[idnum+1] - self._arr_t[idnum])\<close>, in Myr.\<close>

definition step_dt :: "ctx \<Rightarrow> real" where
  "step_dt c = arr_t c ! (idnum c + 1) - arr_t c ! idnum c"

text \<open>
  \<^verbatim>\<open>
  tnow = self._arr_t[idnum]
  tfut = self._arr_t[idnum:]
  iSNe = np.argmin(np.abs((tfut - tnow) - delay))
  \<close>
\<close>

definition nearest_future :: "ctx \<Rightarrow> real \<Rightarrow> nat" where
  "nearest_future c delay =
     (let tnow = arr_t c ! idnum c;
          tfut = drop (idnum c) (arr_t c)
      in argmin_list (map (\<lambda>t. \<bar>(t - tnow) - delay\<bar>) tfut))"

text \<open>
  The number of massive stars of a cluster: \<^verbatim>\<open>np.sum(hist[m_cen >= 8.])\<close> when the IMF
  is sampled, the Poisson draw otherwise.
\<close>

definition N_MS_of :: "ctx \<Rightarrow> draw \<Rightarrow> nat" where
  "N_MS_of c d =
     (if pop_sample_imf (cpf c)
      then sum_list (map fst (filter (\<lambda>(h, m). m \<ge> 8) (zip (hist d) (tab_imf_mc c))))
      else poisson d)"

text \<open>\<^verbatim>\<open>imf += hist\<close>, element by element.\<close>

definition add_hist :: "real list \<Rightarrow> nat list \<Rightarrow> real list" where
  "add_hist a h = map (\<lambda>(x, n). x + real n) (zip a h)"

text \<open>\<^verbatim>\<open>self._arr_SN[idnum+_iSNe] += 1\<close> for every index of \<^verbatim>\<open>iSNe\<close> in turn.\<close>

fun deposit_each :: "nat \<Rightarrow> nat list \<Rightarrow> real list \<Rightarrow> real list" where
  "deposit_each i0 [] a = a"
| "deposit_each i0 (i # rest) a = deposit_each i0 rest (a[i0 + i := a ! (i0 + i) + 1])"

text \<open>
  The branch on \<^verbatim>\<open>delay_fb_sne\<close>, for a cluster with \<open>n\<close> massive stars:
  \<^verbatim>\<open>
  if delay_fb_sne == 0:
      N_SN_0 += N_MS
  elif delay_fb_sne == 1:
      if self.pf['pop_sample_imf']:
          raise NotImplemented('help')
      avg_delay = self._stars.avg_sn_delay
      if dt > avg_delay:
          N_SN_0 += N_MS
      else:
          tnow = self._arr_t[idnum]
          tfut = self._arr_t[idnum:]
          iSNe = np.argmin(np.abs((tfut - tnow) - avg_delay))
          self._arr_SN[idnum+iSNe] += N_MS
  elif delay_fb_sne == 2:
      delays = self._stars.draw_delays(N_MS)
      tnow = self._arr_t[idnum]
      tfut = self._arr_t[idnum:]
      iSNe = np.array([np.argmin(np.abs((tfut - tnow) - delay)) for delay in delays])
      for _iSNe in iSNe:
          self._arr_SN[idnum+_iSNe] += 1
      N_SN_0 += sum(iSNe == 0)
  \<close>
\<close>

definition sne_feedback :: "ctx \<Rightarrow> nat \<Rightarrow> draw \<Rightarrow> lstate \<Rightarrow> py_error + lstate" where
  "sne_feedback c n d s =
     (let delay_fb_sne = pop_delay_sne_feedback (cpf c) in
      if delay_fb_sne = 0 then Inr (s\<lparr>N_SN_0 := N_SN_0 s + real n\<rparr>)
      else if delay_fb_sne = 1 then
        if pop_sample_imf (cpf c) then Inl TypeError
        else
          let avg_delay = avg_sn_delay c in
          if step_dt c > avg_delay then Inr (s\<lparr>N_SN_0 := N_SN_0 s + real n\<rparr>)
          else
            let iSNe = nearest_future c avg_delay in
            Inr (s\<lparr>arr_SN := (arr_SN s)[idnum c + iSNe := arr_SN s ! (idnum c + iSNe) + real n]\<rparr>)
      else if delay_fb_sne = 2 then
        let iSNe = map (nearest_future c) (delays d) in
        Inr (s\<lparr>arr_SN := deposit_each (idnum c) iSNe (arr_SN s),
               N_SN_0 := N_SN_0 s + real (length (filter (\<lambda>i. i = 0) iSNe))\<rparr>)
      else Inr s)"

text \<open>What one pass through the body of the loop does: leave the loop, raise, or go on.\<close>

datatype step_result = Break | Raise py_error | Next lstate

text \<open>
  The body of the loop, from the test of the proposed cluster to \<^verbatim>\<open>ct += 1\<close>:
  \<^verbatim>\<open>
  if (Ms + Mc + Mw) >= Mg:
      break
  ...
  Ms += Mc
  imf += hist
  if N_MS == 0:
      ct += 1
      continue
  ...
  Mw = 2 * (N_SN_0 + N_SN_p) * 1e51 * self.pf['pop_coupling_sne'] / vesc**2 / g_per_msun
  if not self.pf['pop_feedback_rad']:
      ct += 1
      continue
  if self.pf['pop_delay_rad_feedback'] == 0:
      ...
      corr = np.minimum(tavg / dt, 1.)
      E_UV_0 += Lavg * N_MS * dt * corr * 1e6 * s_per_yr
      Mw_rad += 2 * (E_UV_0 + E_UV_p) * self.pf['pop_coupling_rad'] / vesc**2 / g_per_msun
  elif self.pf['pop_delay_rad_feedback'] >= 1:
      raise NotImplemented('help')
  ct += 1
  \<close>
  When the IMF is sampled \<^verbatim>\<open>imf += hist\<close> is executed twice, otherwise \<^verbatim>\<open>hist\<close> is
  \<open>0.0\<close>.
\<close>

definition cluster_step :: "ctx \<Rightarrow> draw \<Rightarrow> lstate \<Rightarrow> step_result" where
  "cluster_step c d s =
     (if Ms s + Mc d + Mw s \<ge> Mg c then Break
      else
        let n = N_MS_of c d;
            s1 = s\<lparr>Ms := Ms s + Mc d,
                   imf := (if pop_sample_imf (cpf c)
                           then add_hist (add_hist (imf s) (hist d)) (hist d) else imf s)\<rparr>
        in
        if n = 0 then Next (s1\<lparr>ct := ct s1 + 1\<rparr>)
        else
          (case sne_feedback c n d s1 of
             Inl e \<Rightarrow> Raise e
           | Inr s2 \<Rightarrow>
               let s3 = s2\<lparr>Mw := 2 * (N_SN_0 s2 + N_SN_p c) * 10 ^ 51 * pop_coupling_sne (cpf c)
                                  / (vesc c)\<^sup>2 / g_per_msun c\<rparr>
               in
               if \<not> pop_feedback_rad (cpf c) then Next (s3\<lparr>ct := ct s3 + 1\<rparr>)
               else if pop_delay_rad_feedback (cpf c) = 0 then
                 let corr = min (tavg c / step_dt c) 1;
                     e = E_UV_0 s3 + Lavg c * real n * step_dt c * corr * 10 ^ 6 * s_per_yr c
                 in Next (s3\<lparr>E_UV_0 := e,
                             Mw_rad := Mw_rad s3 + 2 * (e + E_UV_p c) * pop_coupling_rad (cpf c)
                                         / (vesc c)\<^sup>2 / g_per_msun c,
                             ct := ct s3 + 1\<rparr>)
               else if pop_delay_rad_feedback (cpf c) \<ge> 1 then Raise TypeError
               else Next (s3\<lparr>ct := ct s3 + 1\<rparr>)))"

text \<open>
  \<^verbatim>\<open>while (Mw + Mw_rad + Ms) < Mg * fstar_gmc:\<close> over the list of the draws still to
  come. \<open>None\<close> means that the loop asks for a draw and the list has none left: the loop
  has not ended within the draws given. \<open>Some (Inl e)\<close> is an exception, \<open>Some (Inr s)\<close>
  the state when the loop ends.
\<close>

fun cluster_loop :: "ctx \<Rightarrow> draw list \<Rightarrow> lstate \<Rightarrow> (py_error + lstate) option" where
  "cluster_loop c [] s =
     (if Mw s + Mw_rad s + Ms s < Mg c * pop_fstar_cloud (cpf c) then None else Some (Inr s))"
| "cluster_loop c (d # ds) s =
     (if Mw s + Mw_rad s + Ms s < Mg c * pop_fstar_cloud (cpf c) then
        (case cluster_step c d s of
           Break \<Rightarrow> Some (Inr s)
         | Raise e \<Rightarrow> Some (Inl e)
         | Next s' \<Rightarrow> cluster_loop c ds s')
      else Some (Inr s))"

text \<open>
  The state at the head of the loop: \<^verbatim>\<open>Ms = 0.0\<close>, \<^verbatim>\<open>N_SN_0 = 0.\<close>, \<^verbatim>\<open>E_UV_0 = 0.\<close>,
  \<^verbatim>\<open>imf = np.zeros_like(m_cen)\<close>, \<^verbatim>\<open>ct = 0\<close>, \<^verbatim>\<open>Mw = 0.0\<close>, \<^verbatim>\<open>Mw_rad = 0.0\<close>.
\<close>

definition init_state :: "ctx \<Rightarrow> real list \<Rightarrow> lstate" where
  "init_state c SN = \<lparr>Ms = 0, Mw = 0, Mw_rad = 0, N_SN_0 = 0, E_UV_0 = 0, ct = 0,
                      imf = replicate (length (tab_imf_mc c)) 0, arr_SN = SN\<rparr>"

text \<open>
  \<^verbatim>\<open>_gen_stars\<close>: the reads at \<^verbatim>\<open>idnum\<close> and \<^verbatim>\<open>idnum+1\<close> raise \<^verbatim>\<open>IndexError\<close> beyond
  the arrays; the result is \<^verbatim>\<open>(Ms, Mw, imf)\<close> and the array \<^verbatim>\<open>self._arr_SN\<close> as the loop
  leaves it. The context \<open>c\<close> carries \<^verbatim>\<open>Mg\<close>, \<^verbatim>\<open>N_SN_p\<close> and \<^verbatim>\<open>E_UV_p\<close> as read.
\<close>

definition gen_stars ::
  "ctx \<Rightarrow> real list \<Rightarrow> draw list \<Rightarrow> (py_error + ((real \<times> real \<times> real list) \<times> real list)) option" where
  "gen_stars c SN ds =
     (if \<not> idnum c + 1 < length (arr_t c) \<or> \<not> idnum c < length SN then Some (Inl IndexError)
      else
        (case cluster_loop c ds (init_state (c\<lparr>N_SN_p := SN ! idnum c\<rparr>) SN) of
           None \<Rightarrow> None
         | Some (Inl e) \<Rightarrow> Some (Inl e)
         | Some (Inr s) \<Rightarrow> Some (Inr ((Ms s, Mw s, imf s), arr_SN s))))"

subsection \<open>A small halo at the first of four time steps\<close>

text \<open>
  A grid of four times 10 Myr apart; at the first step the halo holds 1000 solar masses
  of cold gas and has an escape velocity of 10 km/s (\<open>10\<^sup>6\<close> cm/s). Supernovae of earlier
  steps and earlier ultraviolet energy are absent. The mean supernova delay is 15 Myr.
\<close>

definition example_pf :: stars_pf where
  "example_pf = \<lparr>pop_fstar_cloud = 1, pop_delay_sne_feedback = 0, pop_delay_rad_feedback = 0,
                  pop_sample_imf = False, pop_feedback_rad = False,
                  pop_coupling_sne = 1, pop_coupling_rad = 1\<rparr>"

definition example_ctx :: ctx where
  "example_ctx = \<lparr>cpf = example_pf, vesc = 10 ^ 6, avg_sn_delay = 15, Lavg = 10 ^ 36,
                   tavg = 5, tab_imf_mc = [1, 10], g_per_msun = 1989 * 10 ^ 30,
                   s_per_yr = 31557600, arr_t = [0, 10, 20, 30], idnum = 0, Mg = 1000,
                   N_SN_p = 0, E_UV_p = 0\<rparr>"

text \<open>
  A cluster of 10 solar masses: one massive star by the Poisson draw; two (the bin of
  centre 10) when the IMF is sampled; the delays drawn are 1 and 12 Myr.
\<close>

definition example_draw :: draw where
  "example_draw = \<lparr>Mc = 10, hist = [5, 2], poisson = 1, delays = [1, 12]\<rparr>"

definition example_state :: lstate where
  "example_state = init_state example_ctx [0, 0, 0, 0]"

text \<open>The same halo under other settings of the feedback parameters.\<close>

definition example_ctx_mode1 :: ctx where
  "example_ctx_mode1 = example_ctx\<lparr>cpf := example_pf\<lparr>pop_delay_sne_feedback := 1\<rparr>\<rparr>"

definition example_ctx_mode2 :: ctx where
  "example_ctx_mode2 = example_ctx\<lparr>cpf := example_pf\<lparr>pop_delay_sne_feedback := 2\<rparr>\<rparr>"

definition example_ctx_imf_mode1 :: ctx where
  "example_ctx_imf_mode1 =
     example_ctx\<lparr>cpf := example_pf\<lparr>pop_delay_sne_feedback := 1, pop_sample_imf := True\<rparr>\<rparr>"

definition example_ctx_imf_mode2 :: ctx where
  "example_ctx_imf_mode2 =
     example_ctx\<lparr>cpf := example_pf\<lparr>pop_delay_sne_feedback := 2, pop_sample_imf := True\<rparr>\<rparr>"

definition example_ctx_rad_delay :: ctx where
  "example_ctx_rad_delay =
     example_ctx\<lparr>cpf := example_pf\<lparr>pop_feedback_rad := True, pop_delay_rad_feedback := 1\<rparr>\<rparr>"

text \<open>A proposed cluster as massive as the whole gas supply.\<close>

definition example_draw_big :: draw where
  "example_draw_big = \<lparr>Mc = 1000, hist = [5, 2], poisson = 1, delays = [1, 12]\<rparr>"

text \<open>The states in which the loop ends in the examples.\<close>

definition overshoot_state :: lstate where
  "overshoot_state = \<lparr>Ms = 10, Mw = 2000000000 / 1989, Mw_rad = 0, N_SN_0 = 1, E_UV_0 = 0,
                       ct = 1, imf = [0, 0], arr_SN = [0, 0, 0, 0]\<rparr>"

definition imf_mode2_state :: lstate where
  "imf_mode2_state = \<lparr>Ms = 10, Mw = 2000000000 / 1989, Mw_rad = 0, N_SN_0 = 1, E_UV_0 = 0,
                       ct = 1, imf = [10, 4], arr_SN = [1, 1, 0, 0]\<rparr>"

section \<open>Properties\<close>

subsection \<open>Facts about the numpy primitives\<close>

lemma argmin_list_less: "xs \<noteq> [] \<Longrightarrow> argmin_list xs < length xs"
  by (induction xs rule: argmin_list.induct) (auto simp: Let_def)

lemma argmin_list_le: "j < length xs \<Longrightarrow> xs ! argmin_list xs \<le> xs ! j"
proof (induction xs arbitrary: j rule: argmin_list.induct)
  case 1
  then show ?case by simp
next
  case (2 x)
  then show ?case by simp
next
  case (3 x y ys)
  let ?k = "argmin_list (y # ys)"
  show ?case
  proof (cases j)
    case 0
    then show ?thesis by (simp add: Let_def)
  next
    case (Suc j')
    with "3.prems" have "j' < length (y # ys)" by simp
    then have "(y # ys) ! ?k \<le> (y # ys) ! j'" by (rule "3.IH")
    with Suc show ?thesis by (auto simp: Let_def)
  qed
qed

lemma length_np_repeat: "length (np_repeat xs k) = k * length xs"
  by (induction xs) (simp_all add: np_repeat_def)

lemma nth_np_repeat: "i < length xs \<Longrightarrow> j < k \<Longrightarrow> np_repeat xs k ! (i * k + j) = xs ! i"
proof (induction xs arbitrary: i)
  case Nil
  then show ?case by simp
next
  case (Cons x xs)
  have unf: "np_repeat (x # xs) k = replicate k x @ np_repeat xs k"
    by (simp add: np_repeat_def)
  show ?case
  proof (cases i)
    case 0
    with Cons.prems show ?thesis by (simp add: unf nth_append)
  next
    case (Suc i')
    with Cons.prems have "i' < length xs" by simp
    then have "np_repeat xs k ! (i' * k + j) = xs ! i'" using Cons.prems(2) by (rule Cons.IH)
    with Suc show ?thesis by (simp add: unf nth_append)
  qed
qed

lemma length_cumsum_from: "length (cumsum_from a xs) = length xs"
  by (induction xs arbitrary: a) simp_all

lemma nth_cumsum_from: "k < length xs \<Longrightarrow> cumsum_from a xs ! k = a + (\<Sum>j<Suc k. xs ! j)"
proof (induction xs arbitrary: a k)
  case Nil
  then show ?case by simp
next
  case (Cons x xs)
  show ?case
  proof (cases k)
    case 0
    then show ?thesis by simp
  next
    case (Suc k')
    with Cons.prems have "k' < length xs" by simp
    then have "cumsum_from (a + x) xs ! k' = (a + x) + (\<Sum>j<Suc k'. xs ! j)" by (rule Cons.IH)
    moreover have "(\<Sum>j<Suc (Suc k'). (x # xs) ! j) = x + (\<Sum>j<Suc k'. xs ! j)"
      by (simp only: sum.lessThan_Suc_shift) simp
    ultimately show ?thesis using Suc by simp
  qed
qed

lemma length_np_diff: "length (np_diff xs) = length xs - 1"
  by (induction xs rule: np_diff.induct) simp_all

lemma nth_np_diff: "Suc k < length xs \<Longrightarrow> np_diff xs ! k = xs ! Suc k - xs ! k"
proof (induction xs arbitrary: k rule: np_diff.induct)
  case (3 x y ys)
  then show ?case by (cases k) simp_all
qed simp_all

lemma nth_tabulate2: "i < n \<Longrightarrow> k < m \<Longrightarrow> tabulate2 n m f ! i ! k = f i k"
  by (simp add: tabulate2_def)

lemma length_tabulate2: "length (tabulate2 n m f) = n"
  by (simp add: tabulate2_def)

lemma length_row_tabulate2: "i < n \<Longrightarrow> length (tabulate2 n m f ! i) = m"
  by (simp add: tabulate2_def)

subsection \<open>Delayed deposits never go back in time\<close>

text \<open>
  Claim C10. On a non-empty time grid \<^verbatim>\<open>deposit_in(tnow, delay)\<close> returns an index
  that is at least the index \<^verbatim>\<open>inow\<close> of the grid point nearest to \<^verbatim>\<open>tnow\<close> and at
  most the last index of the grid; this holds for every \<^verbatim>\<open>tnow\<close> and every delay.
\<close>

theorem deposit_in_not_before_now:
  assumes "ts \<noteq> []"
  shows "\<exists>inow k. deposit_in ts tnow delay = Inr k
           \<and> argmin (map (\<lambda>t. \<bar>tnow - t\<bar>) ts) = Inr inow
           \<and> (\<forall>j < length ts. \<bar>tnow - ts ! inow\<bar> \<le> \<bar>tnow - ts ! j\<bar>)
           \<and> inow \<le> k \<and> k \<le> length ts - 1"
proof -
  let ?d = "map (\<lambda>t. \<bar>tnow - t\<bar>) ts"
  let ?inow = "argmin_list ?d"
  let ?f = "map (\<lambda>t. \<bar>(t - tnow) - delay\<bar>) (drop ?inow ts)"
  from assms have ne: "?d \<noteq> []" by simp
  then have lt: "?inow < length ts" using argmin_list_less [of ?d] by simp
  then have fne: "?f \<noteq> []" by simp
  then have flt: "argmin_list ?f < length ts - ?inow"
    using argmin_list_less [of ?f] by simp
  have near: "\<forall>j < length ts. \<bar>tnow - ts ! ?inow\<bar> \<le> \<bar>tnow - ts ! j\<bar>"
  proof (intro allI impI)
    fix j assume j: "j < length ts"
    then have "?d ! ?inow \<le> ?d ! j" using argmin_list_le [of j ?d] by simp
    with j lt show "\<bar>tnow - ts ! ?inow\<bar> \<le> \<bar>tnow - ts ! j\<bar>" by simp
  qed
  have res: "deposit_in ts tnow delay = Inr (?inow + argmin_list ?f)"
    using ne fne by (simp add: deposit_in_def argmin_def Let_def)
  have a: "argmin ?d = Inr ?inow" using ne by (simp add: argmin_def)
  from flt have le: "?inow + argmin_list ?f \<le> length ts - 1" by arith
  show ?thesis
  proof (intro exI conjI)
    show "deposit_in ts tnow delay = Inr (?inow + argmin_list ?f)" by (rule res)
    show "argmin ?d = Inr ?inow" by (rule a)
    show "\<forall>j < length ts. \<bar>tnow - ts ! ?inow\<bar> \<le> \<bar>tnow - ts ! j\<bar>" by (rule near)
    show "?inow \<le> ?inow + argmin_list ?f" by simp
    show "?inow + argmin_list ?f \<le> length ts - 1" by (rule le)
  qed
qed

theorem deposit_in_not_before_now_witness:
  "[0, 10, 20, 30 :: real] \<noteq> []
   \<and> deposit_in [0, 10, 20, 30] 11 14 = Inr 2
   \<and> argmin (map (\<lambda>t. \<bar>11 - t\<bar>) [0, 10, 20, 30]) = Inr 1"
proof -
  have h: "[0, 10, 20, 30 :: real] \<noteq> []" by simp
  have a: "argmin (map (\<lambda>t. \<bar>11 - t\<bar>) [0, 10, 20, 30]) = Inr 1"
    by (simp add: argmin_def)
  from deposit_in_not_before_now [OF h, of 11 14]
  obtain k where r: "deposit_in [0, 10, 20, 30] 11 14 = Inr k"
    and b: "k \<le> length [0, 10, 20, 30 :: real] - 1" by (elim exE conjE)
  have "deposit_in [0, 10, 20, 30] 11 14 = Inr 2 \<or> 3 < k"
    by (simp add: deposit_in_def argmin_def)
  with r b have d: "deposit_in [0, 10, 20, 30] 11 14 = Inr 2" by simp
  from h a d show ?thesis by simp
qed

subsection \<open>Derived mass accretion rates\<close>

lemma mar_example_run: "mar_raw mar_example_pf mar_example_raw = Inr [[1 / 10 ^ 30, 6]]"
  by (simp add: mar_raw_def mar_example_pf_def mar_example_raw_def tiny_MAR_def neg_diff_def t_years_def Let_def)

lemma mar_raw_derived:
  assumes "mar_raw pf raw = Inr mar" and "raw_MAR raw = None" and "raw_MAR_tot raw = None"
  shows "mar = map (\<lambda>row. tiny_MAR # map (\<lambda>(m, d). m / d)
                 (zip (neg_diff row)
                      (neg_diff (t_years pf (raw_z raw)))))
               (raw_Mh raw)"
  using assms by (auto simp: mar_raw_def Let_def comp_def split: if_splits)

text \<open>
  Claim C5, as stated, fails. The grid is in ascending redshift, so the slot of highest
  redshift is the last one; in the example it holds the quotient 6 and not the floor,
  which sits in slot 0 (lowest redshift). The quotient is \<^verbatim>\<open>(-diff(Mh)) / (-diff(t))\<close>,
  the opposite of \<^verbatim>\<open>-diff(Mh) / diff(t)\<close>.
\<close>

theorem mar_raw_floor_slot_counterexample:
  "mar_raw mar_example_pf mar_example_raw = Inr [[1 / 10 ^ 30, 6]]
   \<and> raw_z mar_example_raw ! 0 < raw_z mar_example_raw ! 1
   \<and> [1 / 10 ^ 30, 6 :: real] ! 1 \<noteq> 1 / 10 ^ 30
   \<and> - (np_diff (raw_Mh mar_example_raw ! 0) ! 0)
        / (np_diff (t_years mar_example_pf (raw_z mar_example_raw)) ! 0) = - 6"
  using mar_example_run
  by (simp add: mar_example_pf_def mar_example_raw_def t_years_def)

text \<open>
  Claim C5, amended. For raw histories with \<^verbatim>\<open>Mh\<close> and neither \<^verbatim>\<open>MAR\<close> nor
  \<^verbatim>\<open>MAR_tot\<close>, on a non-empty grid shared by \<^verbatim>\<open>Mh\<close> and \<^verbatim>\<open>z\<close> whose times differ from
  one redshift to the next: the derived array has as many rows as \<^verbatim>\<open>Mh\<close> and rows as
  wide; slot 0 of each row, the lowest redshift, equals the floor \<open>10\<^sup>-\<^sup>3\<^sup>0\<close>; and slot
  \<open>k + 1\<close> equals \<^verbatim>\<open>(Mh[k+1] - Mh[k]) / (t[k+1] - t[k])\<close> with \<^verbatim>\<open>t\<close> in years.
\<close>

theorem mar_raw_pad_then_diff:
  assumes run: "mar_raw pf raw = Inr mar"
    and noMAR: "raw_MAR raw = None" "raw_MAR_tot raw = None"
    and i: "i < length (raw_Mh raw)"
    and shape: "length (raw_Mh raw ! i) = length (raw_z raw)" "raw_z raw \<noteq> []"
    and dt: "\<forall>k. Suc k < length (raw_z raw) \<longrightarrow> t_of_z pf (raw_z raw ! Suc k) \<noteq> t_of_z pf (raw_z raw ! k)"
            "s_per_myr pf \<noteq> 0"
  shows "length mar = length (raw_Mh raw)
         \<and> length (mar ! i) = length (raw_Mh raw ! i)
         \<and> mar ! i ! 0 = 1 / 10 ^ 30
         \<and> (\<forall>k. Suc k < length (raw_z raw) \<longrightarrow>
               mar ! i ! Suc k
                 = (raw_Mh raw ! i ! Suc k - raw_Mh raw ! i ! k)
                   / (t_of_z pf (raw_z raw ! Suc k) * 10 ^ 6 / s_per_myr pf
                      - t_of_z pf (raw_z raw ! k) * 10 ^ 6 / s_per_myr pf))"
proof -
  let ?t = "t_years pf (raw_z raw)"
  let ?dt = "neg_diff ?t"
  let ?dM = "neg_diff (raw_Mh raw ! i)"
  have mar: "mar = map (\<lambda>row. tiny_MAR # map (\<lambda>(m, d). m / d)
                 (zip (neg_diff row) ?dt)) (raw_Mh raw)"
    by (rule mar_raw_derived [OF run noMAR])
  then have len: "length mar = length (raw_Mh raw)" by simp
  have row: "mar ! i = tiny_MAR # map (\<lambda>(m, d). m / d) (zip ?dM ?dt)"
    using mar i by simp
  have ldt: "length ?dt = length (raw_z raw) - 1" by (simp add: neg_diff_def t_years_def length_np_diff)
  have ldM: "length ?dM = length (raw_z raw) - 1"
    using shape by (simp add: neg_diff_def t_years_def length_np_diff)
  have w: "length (mar ! i) = length (raw_Mh raw ! i)"
    using row ldt ldM shape by (cases "raw_z raw") simp_all
  have q: "\<forall>k. Suc k < length (raw_z raw) \<longrightarrow>
               mar ! i ! Suc k
                 = (raw_Mh raw ! i ! Suc k - raw_Mh raw ! i ! k)
                   / (t_of_z pf (raw_z raw ! Suc k) * 10 ^ 6 / s_per_myr pf
                      - t_of_z pf (raw_z raw ! k) * 10 ^ 6 / s_per_myr pf)"
  proof (intro allI impI)
    fix k assume k: "Suc k < length (raw_z raw)"
    then have kk: "k < length ?dM" "k < length ?dt" using ldM ldt by simp_all
    have "mar ! i ! Suc k = ?dM ! k / ?dt ! k" using row kk by simp
    also have "?dM ! k = - (raw_Mh raw ! i ! Suc k - raw_Mh raw ! i ! k)"
      using k shape by (simp add: neg_diff_def nth_np_diff length_np_diff)
    also have "?dt ! k = - (t_of_z pf (raw_z raw ! Suc k) * 10 ^ 6 / s_per_myr pf
                      - t_of_z pf (raw_z raw ! k) * 10 ^ 6 / s_per_myr pf)"
      using k by (simp add: neg_diff_def t_years_def nth_np_diff length_np_diff)
    finally show "mar ! i ! Suc k
                 = (raw_Mh raw ! i ! Suc k - raw_Mh raw ! i ! k)
                   / (t_of_z pf (raw_z raw ! Suc k) * 10 ^ 6 / s_per_myr pf
                      - t_of_z pf (raw_z raw ! k) * 10 ^ 6 / s_per_myr pf)"
      by (simp only: minus_divide_divide)
  qed
  from len w row q show ?thesis by (simp add: tiny_MAR_def)
qed

theorem mar_raw_pad_then_diff_witness:
  "mar_raw mar_example_pf mar_example_raw = Inr [[1 / 10 ^ 30, 6]]
   \<and> raw_MAR mar_example_raw = None \<and> raw_MAR_tot mar_example_raw = None
   \<and> (0::nat) < length (raw_Mh mar_example_raw)
   \<and> length (raw_Mh mar_example_raw ! 0) = length (raw_z mar_example_raw)
   \<and> raw_z mar_example_raw \<noteq> []
   \<and> t_of_z mar_example_pf (raw_z mar_example_raw ! Suc 0)
       \<noteq> t_of_z mar_example_pf (raw_z mar_example_raw ! 0)
   \<and> s_per_myr mar_example_pf \<noteq> 0
   \<and> Suc 0 < length (raw_z mar_example_raw)
   \<and> [[1 / 10 ^ 30, 6 :: real]] ! 0 ! 0 = 1 / 10 ^ 30
   \<and> [[1 / 10 ^ 30, 6 :: real]] ! 0 ! Suc 0
       = (raw_Mh mar_example_raw ! 0 ! Suc 0 - raw_Mh mar_example_raw ! 0 ! 0)
         / (t_of_z mar_example_pf (raw_z mar_example_raw ! Suc 0) * 10 ^ 6
              / s_per_myr mar_example_pf
            - t_of_z mar_example_pf (raw_z mar_example_raw ! 0) * 10 ^ 6
              / s_per_myr mar_example_pf)"
proof -
  have n: "raw_MAR mar_example_raw = None" "raw_MAR_tot mar_example_raw = None"
    by (simp_all add: mar_example_raw_def)
  have i: "(0::nat) < length (raw_Mh mar_example_raw)" by (simp add: mar_example_raw_def)
  have sh: "length (raw_Mh mar_example_raw ! 0) = length (raw_z mar_example_raw)"
      "raw_z mar_example_raw \<noteq> []"
    by (simp_all add: mar_example_raw_def)
  have k: "Suc 0 < length (raw_z mar_example_raw)" by (simp add: mar_example_raw_def)
  have d0: "t_of_z mar_example_pf (raw_z mar_example_raw ! Suc 0)
       \<noteq> t_of_z mar_example_pf (raw_z mar_example_raw ! 0)"
    by (simp add: mar_example_raw_def mar_example_pf_def)
  have d: "\<forall>k. Suc k < length (raw_z mar_example_raw) \<longrightarrow>
      t_of_z mar_example_pf (raw_z mar_example_raw ! Suc k)
        \<noteq> t_of_z mar_example_pf (raw_z mar_example_raw ! k)"
    by (simp add: mar_example_raw_def mar_example_pf_def)
  have s: "s_per_myr mar_example_pf \<noteq> 0" by (simp add: mar_example_pf_def)
  from mar_raw_pad_then_diff [OF mar_example_run n i sh d s] k
  have "[[1 / 10 ^ 30, 6 :: real]] ! 0 ! 0 = 1 / 10 ^ 30"
    and "[[1 / 10 ^ 30, 6 :: real]] ! 0 ! Suc 0
       = (raw_Mh mar_example_raw ! 0 ! Suc 0 - raw_Mh mar_example_raw ! 0 ! 0)
         / (t_of_z mar_example_pf (raw_z mar_example_raw ! Suc 0) * 10 ^ 6
              / s_per_myr mar_example_pf
            - t_of_z mar_example_pf (raw_z mar_example_raw ! 0) * 10 ^ 6
              / s_per_myr mar_example_pf)"
    by blast+
  with mar_example_run n i sh d0 s k show ?thesis by blast
qed

subsection \<open>Log-normal noise, draw by draw\<close>

text \<open>
  For a positive element the perturbed value \<^verbatim>\<open>mar + noise\<close> is the element times
  \<open>10\<^sup>x\<close>: the scatter is in decades.
\<close>

lemma noise_lognormal_factor:
  "0 < a \<Longrightarrow> a + noise_lognormal a x = a * 10 powr x"
  by (simp add: noise_lognormal_def powr_add)

lemma ln_10_gt_1: "1 < ln (10::real)"
proof -
  have "exp (1::real) \<le> 3" by (rule exp_le)
  then have "exp (1::real) < 10" by simp
  then have "ln (exp (1::real)) < ln 10" by (subst ln_less_cancel_iff) simp_all
  then show ?thesis by simp
qed

lemma scatter_mar_exp:
  assumes "0 < a"
  shows "scatter_mar a sigma x = a / exp (1 / 2 * sigma\<^sup>2) * exp (ln 10 * x)"
proof -
  have "a + noise_lognormal a x = a * 10 powr x" using assms by (rule noise_lognormal_factor)
  moreover have "(10::real) powr x = exp (ln 10 * x)" by (simp add: powr_def mult.commute)
  ultimately show ?thesis by (simp add: scatter_mar_def)
qed

lemma exp_mean_hom: "exp_mean sigma (\<lambda>x. c * f x) = c * exp_mean sigma f"
  by (cases "c = 0") (simp_all add: exp_mean_def)

lemma exp_mean_mgf: "exp_mean sigma (\<lambda>x. exp (s * x)) = exp (s\<^sup>2 * sigma\<^sup>2 / 2)"
  by (simp add: exp_mean_def)

text \<open>
  Claim C4. The claim says that the mean over the normal draws of the perturbed and
  normalised value equals the original value. The mean enters through two of its
  properties only: it is homogeneous, and the mean of \<open>exp (s * x)\<close> over a normal draw
  \<open>x\<close> of mean zero and standard deviation \<open>sigma\<close> is \<open>exp (s\<^sup>2 * sigma\<^sup>2 / 2)\<close>. For every
  operator \<open>E\<close> with these properties, every positive \<open>a\<close> and every \<open>sigma > 0\<close>, the
  mean of \<^verbatim>\<open>(mar + noise) / exp(0.5 * sigma**2)\<close> is \<open>a * exp (((ln 10)\<^sup>2 - 1) * sigma\<^sup>2 / 2)\<close>,
  which is larger than \<open>a\<close>: the noise is drawn in decades and normalised as if it were
  drawn in natural logarithms.
\<close>

theorem scatter_mar_mean_too_large:
  assumes a: "0 < a" and sigma: "0 < sigma"
    and hom: "\<forall>c f. E (\<lambda>x. c * f x) = c * E f"
    and mgf: "\<forall>s. E (\<lambda>x. exp (s * x)) = exp (s\<^sup>2 * sigma\<^sup>2 / 2)"
  shows "E (\<lambda>x. scatter_mar a sigma x) = a * exp (((ln 10)\<^sup>2 - 1) * sigma\<^sup>2 / 2)
         \<and> a < E (\<lambda>x. scatter_mar a sigma x)"
proof -
  let ?c = "a / exp (1 / 2 * sigma\<^sup>2)"
  have f: "(\<lambda>x. scatter_mar a sigma x) = (\<lambda>x. ?c * exp (ln 10 * x))"
    by (rule ext) (rule scatter_mar_exp [OF a])
  have h: "E (\<lambda>x. ?c * exp (ln 10 * x)) = ?c * E (\<lambda>x. exp (ln 10 * x))"
    by (rule hom [rule_format, of ?c "\<lambda>x. exp (ln 10 * x)"])
  have m: "E (\<lambda>x. exp (ln 10 * x)) = exp ((ln 10)\<^sup>2 * sigma\<^sup>2 / 2)"
    by (rule mgf [rule_format, of "ln 10"])
  have q: "exp ((ln 10)\<^sup>2 * sigma\<^sup>2 / 2) / exp (1 / 2 * sigma\<^sup>2)
             = exp (((ln 10)\<^sup>2 - 1) * sigma\<^sup>2 / 2)"
    by (simp add: exp_diff [symmetric] algebra_simps diff_divide_distrib)
  have "E (\<lambda>x. scatter_mar a sigma x) = ?c * exp ((ln 10)\<^sup>2 * sigma\<^sup>2 / 2)"
    by (simp only: f h m)
  also have "\<dots> = a * (exp ((ln 10)\<^sup>2 * sigma\<^sup>2 / 2) / exp (1 / 2 * sigma\<^sup>2))"
    by simp
  finally have eq: "E (\<lambda>x. scatter_mar a sigma x) = a * exp (((ln 10)\<^sup>2 - 1) * sigma\<^sup>2 / 2)"
    by (simp only: q)
  have "1 < (ln (10::real))\<^sup>2" using ln_10_gt_1 by (simp add: power2_eq_square less_1_mult)
  with sigma have "0 < ((ln 10)\<^sup>2 - 1) * sigma\<^sup>2 / 2" by simp
  then have "1 < exp (((ln 10)\<^sup>2 - 1) * sigma\<^sup>2 / 2)" by simp
  with a have "a * 1 < a * exp (((ln 10)\<^sup>2 - 1) * sigma\<^sup>2 / 2)"
    by (simp only: mult_less_cancel_left_pos)
  with eq show ?thesis by simp
qed


theorem scatter_mar_mean_too_large_witness:
  "(0::real) < 1 \<and> (0::real) < 3 / 10
   \<and> (\<forall>c f. exp_mean (3 / 10) (\<lambda>x. c * f x) = c * exp_mean (3 / 10) f)
   \<and> (\<forall>s. exp_mean (3 / 10) (\<lambda>x. exp (s * x)) = exp (s\<^sup>2 * (3 / 10)\<^sup>2 / 2))
   \<and> exp_mean (3 / 10) (\<lambda>x. scatter_mar 1 (3 / 10) x)
       = 1 * exp (((ln 10)\<^sup>2 - 1) * (3 / 10)\<^sup>2 / 2)
   \<and> 1 < exp_mean (3 / 10) (\<lambda>x. scatter_mar 1 (3 / 10) x)"
proof -
  have a: "(0::real) < 1" and s: "(0::real) < 3 / 10" by simp_all
  have hom: "\<forall>c f. exp_mean (3 / 10) (\<lambda>x. c * f x) = c * exp_mean (3 / 10) f"
    by (intro allI) (rule exp_mean_hom)
  have mgf: "\<forall>s. exp_mean (3 / 10) (\<lambda>x. exp (s * x)) = exp (s\<^sup>2 * (3 / 10)\<^sup>2 / 2)"
    by (intro allI) (rule exp_mean_mgf)
  note t = scatter_mar_mean_too_large [OF a s hom mgf]
  show ?thesis by (intro conjI a s hom mgf t [THEN conjunct1] t [THEN conjunct2])
qed

subsection \<open>Tiling\<close>

text \<open>
  Claim C6. For an array \<open>h ! a\<close> of \<open>N\<close> rows and an integer factor \<open>k\<close>:
  \<^verbatim>\<open>tile(arr, k, renorm)\<close> returns a new array; for \<open>k \<ge> 2\<close> it has \<open>k * N\<close> rows and
  its rows \<open>i * k, \<dots>, i * k + k - 1\<close> all equal row \<open>i\<close> of the input (divided by \<open>k\<close>
  when \<^verbatim>\<open>renorm\<close> holds); for \<open>k = 0\<close> and \<open>k = 1\<close> it equals the input. In every case the
  result lives at a reference other than the input's, the input is unchanged, and an
  assignment to the result leaves the input unchanged.
\<close>

theorem tile_contiguous_copy:
  assumes "a < length h"
  shows "\<exists>h' r. tile h (Some a) (real k) renorm = Inr (h', Some r)
           \<and> r < length h' \<and> r \<noteq> a \<and> h' ! a = h ! a \<and> (\<forall>b. h'[r := b] ! a = h ! a)
           \<and> (k \<le> 1 \<longrightarrow> h' ! r = h ! a)
           \<and> (2 \<le> k \<longrightarrow> length (h' ! r) = k * length (h ! a)
                \<and> (\<forall>i < length (h ! a). \<forall>j < k.
                      h' ! r ! (i * k + j)
                        = (if renorm then map (\<lambda>x. x / real k) (h ! a ! i) else h ! a ! i)))"
proof (cases "k \<le> 1")
  case True
  then have k: "real k = 0 \<or> real k = 1" by (cases k) auto
  then have "tile h (Some a) (real k) renorm = Inr (h @ [h ! a], Some (length h))"
    by (auto simp: tile_def alloc_def)
  with assms True show ?thesis by (simp add: nth_append)
next
  case False
  then have k2: "2 \<le> k" by simp
  then have n01: "real k \<noteq> 0" "real k \<noteq> 1" "\<not> real k < 0" by auto
  have fl: "\<lfloor>real k\<rfloor> = int k" by simp
  let ?rep = "np_repeat (h ! a) k"
  show ?thesis
  proof (cases renorm)
    case True
    let ?res = "map (map (\<lambda>x. x / real k)) ?rep"
    have t: "tile h (Some a) (real k) renorm = Inr (h @ [?rep] @ [?res], Some (Suc (length h)))"
      using n01 True by (simp add: tile_def alloc_def fl nth_append)
    have "\<forall>i < length (h ! a). \<forall>j < k. ?res ! (i * k + j) = map (\<lambda>x. x / real k) (h ! a ! i)"
    proof (intro allI impI)
      fix i j assume i: "i < length (h ! a)" and j: "j < k"
      then have "i * k + j < k * length (h ! a)"
        by (metis add.commute mult.commute mult_Suc_right add_less_cancel_left less_le_trans Suc_leI mult_le_mono2)
      then show "?res ! (i * k + j) = map (\<lambda>x. x / real k) (h ! a ! i)"
        using i j by (simp add: length_np_repeat nth_np_repeat)
    qed
    with t assms k2 True show ?thesis
      by (simp add: nth_append length_np_repeat)
  next
    case False
    have t: "tile h (Some a) (real k) renorm = Inr (h @ [?rep], Some (length h))"
      using n01 False by (simp add: tile_def alloc_def fl)
    with assms k2 False show ?thesis
      by (simp add: nth_append length_np_repeat nth_np_repeat)
  qed
qed

theorem tile_contiguous_copy_witness:
  "(0::nat) < length [[[1, 2], [3, 4 :: real]]]
   \<and> tile [[[1, 2], [3, 4]]] (Some 0) (real 2) True
       = Inr ([[[1, 2], [3, 4]], [[1, 2], [1, 2], [3, 4], [3, 4]],
               [[1 / 2, 1], [1 / 2, 1], [3 / 2, 2], [3 / 2, 2]]], Some 2)
   \<and> tile [[[1, 2], [3, 4]]] (Some 0) (real 1) True
       = Inr ([[[1, 2], [3, 4]], [[1, 2], [3, 4]]], Some 1)"
proof -
  have h: "(0::nat) < length [[[1, 2], [3, 4 :: real]]]" by simp
  have v: "tile [[[1, 2], [3, 4]]] (Some 0) (real 2) True
       = Inr ([[[1, 2], [3, 4]], [[1, 2], [1, 2], [3, 4], [3, 4]],
               [[1 / 2, 1], [1 / 2, 1], [3 / 2, 2], [3 / 2, 2]]], Some 2)
   \<and> tile [[[1, 2], [3, 4]]] (Some 0) (real 1) True
       = Inr ([[[1, 2], [3, 4]], [[1, 2], [3, 4]]], Some 1)"
    by (simp add: tile_def alloc_def np_repeat_def eval_nat_numeral)
  show ?thesis
    using tile_contiguous_copy [OF h, of 2 True] tile_contiguous_copy [OF h, of 1 True]
    by - (rule conjI [OF h v])
qed

text \<open>The array that \<^verbatim>\<open>tile\<close> allocates holds the rows given by \<open>tile_rows\<close>.\<close>

lemma tile_rows_tile:
  "tile h (Some a) thin renorm = Inr (h', Some r) \<Longrightarrow>
     tile_rows (h ! a) thin renorm = Inr (h' ! r)"
  by (auto simp: tile_def tile_rows_def alloc_def Let_def nth_append split: if_splits)

subsection \<open>Stellar mass in the deterministic evolver\<close>

lemma gen_galaxy_histories_out:
  assumes "gen_galaxy_histories pf halos = Inr out"
  shows "out_z out = rev (hh_z halos)" and "out_t out = rev (hh_t halos)"
    and "out_Mh out = map rev (hh_Mh halos)" and "out_MAR out = map rev (hh_MAR halos)"
    and "out_Ms out = map (\<lambda>row. 0 # np_cumsum (map (\<lambda>(s, d). s * d * (1 - pop_mass_yield pf))
                        (zip (butlast row) (evolver_dt halos)))) (SFR_duty pf halos)"
    and "length (hh_t halos) = length (hh_z halos)"
  using assms
  by (auto simp: gen_galaxy_histories_def Let_def
           split: if_splits option.splits quench.splits sum.splits)

lemma gen_galaxy_histories_shape:
  assumes "gen_galaxy_histories pf halos = Inr out"
  shows "length (SFR_duty pf halos) = length (hh_Mh halos)"
    and "\<forall>row \<in> set (SFR_duty pf halos). length row = length (hh_z halos)"
    and "\<forall>row \<in> set (hh_Mh halos). length row = length (hh_z halos)"
    and "\<forall>row \<in> set (hh_MAR halos). length row = length (hh_z halos)"
    and "length (hh_MAR halos) = length (hh_Mh halos)"
  using assms
  by (auto simp: gen_galaxy_histories_def SFR_duty_def Let_def tabulate2_def
           split: if_splits option.splits quench.splits sum.splits)

lemma gen_galaxy_histories_SFR:
  assumes "gen_galaxy_histories pf halos = Inr out"
    and "i < length (hh_Mh halos)" and "k < length (hh_z halos)"
  shows "out_SFR out ! i ! k
           = SFR_duty pf halos ! i ! k
               * (if above_Mmin pf (out_z out) (out_Mh out) i k then 1 else 0)
               * (if is_quenched pf (out_z out) (out_Mh out) i k then 0 else 1)"
  using assms
  by (auto simp: gen_galaxy_histories_def Let_def nth_tabulate2 is_quenched_def
           split: if_splits option.splits quench.splits sum.splits)


lemma length_evolver_dt: "length (evolver_dt halos) = length (hh_t halos) - 1"
  by (simp add: evolver_dt_def length_np_diff)

lemma Ms_row_cumsum:
  assumes "gen_galaxy_histories pf halos = Inr out" and "i < length (hh_Mh halos)"
  shows "out_Ms out ! i ! 0 = 0
         \<and> (1 \<le> length (hh_z halos) \<longrightarrow> length (out_Ms out ! i) = length (hh_z halos))
         \<and> (\<forall>k. 1 \<le> k \<and> k < length (hh_z halos) \<longrightarrow>
               out_Ms out ! i ! k
                 = (\<Sum>j<k. SFR_duty pf halos ! i ! j * evolver_dt halos ! j
                              * (1 - pop_mass_yield pf)))"
proof -
  let ?Nt = "length (hh_z halos)"
  let ?row = "SFR_duty pf halos ! i"
  let ?dt = "evolver_dt halos"
  let ?xs = "map (\<lambda>(s, d). s * d * (1 - pop_mass_yield pf)) (zip (butlast ?row) ?dt)"
  from assms have i: "i < length (SFR_duty pf halos)"
    by (simp add: gen_galaxy_histories_shape(1))
  then have "?row \<in> set (SFR_duty pf halos)" by simp
  with gen_galaxy_histories_shape(2) [OF assms(1)] have lrow: "length ?row = ?Nt" by blast
  have ldt: "length ?dt = ?Nt - 1"
    using gen_galaxy_histories_out(6) [OF assms(1)] by (simp add: length_evolver_dt)
  have Ms: "out_Ms out ! i = 0 # np_cumsum ?xs"
    using gen_galaxy_histories_out(5) [OF assms(1)] i by simp
  have lxs: "length ?xs = ?Nt - 1" using lrow ldt by simp
  have nth: "\<forall>j < ?Nt - 1. ?xs ! j = ?row ! j * ?dt ! j * (1 - pop_mass_yield pf)"
    using lrow ldt by (simp add: nth_butlast)
  have sums: "\<forall>k. 1 \<le> k \<and> k < ?Nt \<longrightarrow>
     out_Ms out ! i ! k = (\<Sum>j<k. ?row ! j * ?dt ! j * (1 - pop_mass_yield pf))"
  proof (intro allI impI)
    fix k assume k: "1 \<le> k \<and> k < ?Nt"
    then obtain k' where k': "k = Suc k'" by (cases k) auto
    with k lxs have "k' < length ?xs" by simp
    then have "np_cumsum ?xs ! k' = (\<Sum>j<Suc k'. ?xs ! j)"
      by (simp add: np_cumsum_def nth_cumsum_from del: sum.lessThan_Suc)
    also have "\<dots> = (\<Sum>j<Suc k'. ?row ! j * ?dt ! j * (1 - pop_mass_yield pf))"
    proof (rule sum.cong)
      fix j assume "j \<in> {..<Suc k'}"
      with k k' have "j < ?Nt - 1" by simp
      with nth show "?xs ! j = ?row ! j * ?dt ! j * (1 - pop_mass_yield pf)" by blast
    qed simp
    finally show "out_Ms out ! i ! k = (\<Sum>j<k. ?row ! j * ?dt ! j * (1 - pop_mass_yield pf))"
      using Ms k' by simp
  qed
  have len: "1 \<le> ?Nt \<longrightarrow> length (out_Ms out ! i) = ?Nt"
    using Ms lxs by (auto simp: np_cumsum_def length_cumsum_from)
  from Ms sums len show ?thesis by simp
qed







subsection \<open>The two-step scenario, from the raw masses to the galaxy histories\<close>

lemma mar_raw_derived_params:
  assumes "mar_raw pf raw = Inr mar" and "raw_MAR raw = None" and "raw_MAR_tot raw = None"
  shows "pop_thin_hist pf < 2" and "pop_scatter_mar pf = 0" and "pop_scatter_env pf = 0"
    and "\<forall>row \<in> set (raw_Mh raw). length (neg_diff row) = length (neg_diff (t_years pf (raw_z raw)))"
  using assms by (auto simp: mar_raw_def Let_def split: if_splits)

lemma tile_rows_below_two:
  assumes "tile_rows a thin renorm = Inr b" and "thin < 2"
  shows "b = a"
proof (cases "thin = 0 \<or> thin = 1")
  case True
  with assms show ?thesis by (auto simp: tile_rows_def)
next
  case False
  with assms have int: "thin = of_int \<lfloor>thin\<rfloor>" and pos: "0 \<le> thin"
    by (auto simp: tile_rows_def Let_def split: if_splits)
  from pos assms(2) have "\<lfloor>thin\<rfloor> = 0 \<or> \<lfloor>thin\<rfloor> = 1" by (auto simp: floor_eq_iff)
  with int False show ?thesis by auto
qed

lemma gen_halo_histories_derived:
  assumes run: "gen_halo_histories pf draws raw = Inr halos"
    and noMAR: "raw_MAR raw = None" "raw_MAR_tot raw = None"
    and notrim: "length (raw_Mh raw) \<noteq> length (raw_z raw)
                 \<or> \<not> (pop_synth_minimal pf \<and> pop_histories_is_None pf)"
  shows "\<exists>mar. mar_raw pf raw = Inr mar
           \<and> halos = \<lparr>hh_z = raw_z raw,
                       hh_t = map (\<lambda>z. t_of_z pf z / s_per_myr pf) (raw_z raw),
                       hh_Mh = raw_Mh raw, hh_nh = raw_nh raw, hh_MAR = mar,
                       hh_SFR = raw_SFR raw\<rparr>"
proof -
  from run obtain mar where mar: "mar_raw pf raw = Inr mar"
    by (auto simp: gen_halo_histories_def Let_def split: sum.splits)
  note par = mar_raw_derived_params [OF mar noMAR]
  have trim: "minimal_trim pf (raw_z raw) (raw_Mh raw) (raw_nh raw) mar
                = Inr (raw_z raw, raw_Mh raw, raw_nh raw, mar)
              \<or> (\<exists>e. minimal_trim pf (raw_z raw) (raw_Mh raw) (raw_nh raw) mar = Inl e)"
    using notrim by (auto simp: minimal_trim_def Let_def)
  with run mar have tr: "minimal_trim pf (raw_z raw) (raw_Mh raw) (raw_nh raw) mar
                = Inr (raw_z raw, raw_Mh raw, raw_nh raw, mar)"
    by (auto simp: gen_halo_histories_def Let_def)
  from run mar tr par(2,3) obtain nh Mh mar2 where
      nh: "(if pop_thin_hist pf > 0 then tile_rows (raw_nh raw) (pop_thin_hist pf) True
            else Inr (raw_nh raw)) = Inr nh"
    and Mh: "(if pop_thin_hist pf > 0 then tile_rows (raw_Mh raw) (pop_thin_hist pf) False
            else Inr (raw_Mh raw)) = Inr Mh"
    and m2: "tile_rows mar (pop_thin_hist pf) False = Inr mar2"
    and h: "halos = \<lparr>hh_z = raw_z raw,
                       hh_t = map (\<lambda>z. t_of_z pf z / s_per_myr pf) (raw_z raw),
                       hh_Mh = Mh, hh_nh = nh, hh_MAR = mar2, hh_SFR = raw_SFR raw\<rparr>"
    by (auto simp: gen_halo_histories_def Let_def split: sum.splits)
  from nh par(1) have "nh = raw_nh raw"
    by (auto dest: tile_rows_below_two split: if_splits)
  moreover from Mh par(1) have "Mh = raw_Mh raw"
    by (auto dest: tile_rows_below_two split: if_splits)
  moreover from m2 par(1) have "mar2 = mar" by (rule tile_rows_below_two)
  ultimately show ?thesis using mar h by simp
qed

lemma scenario_derived_halos_run:
  "gen_halo_histories mar_example_pf scenario_draws scenario_raw = Inr scenario_derived_halos"
  by (simp add: gen_halo_histories_def mar_raw_def minimal_trim_def tile_rows_def
        mar_example_pf_def scenario_raw_def scenario_derived_halos_def tiny_MAR_def
        neg_diff_def t_years_def Let_def)

lemma scenario_derived_run:
  "gen_galaxy_histories scenario_pf scenario_derived_halos = Inr scenario_derived_out"
  by (simp add: scenario_pf_def scenario_derived_halos_def scenario_derived_out_def gen_galaxy_histories_def SFR_duty_def evolver_dt_def above_Mmin_def is_quenched_def tabulate2_def np_cumsum_def Let_def upt_rec [of 0] upt_rec [of 1] upt_rec [of 2] upt_rec [of 3])

text \<open>
  On a grid of two ascending redshifts, without thinning, scatter or trimming, with
  \<^verbatim>\<open>pop_update_dt\<close> native, \<^verbatim>\<open>conserve_memory\<close> off and no quenching, both functions
  return on the masses of the scenario.
\<close>

lemma scenario_returns:
  assumes z: "raw_z raw = [z0, z1]" "z0 < z1"
    and Mh: "raw_Mh raw = [[10 ^ 10, 10 ^ 10], [10 ^ 11, 10 ^ 11], [10 ^ 12, 10 ^ 12]]"
    and noMAR: "raw_MAR raw = None" "raw_MAR_tot raw = None"
    and noSFR: "raw_SFR raw = None"
    and hpf: "pop_thin_hist hpf = 0" "pop_scatter_mar hpf = 0" "pop_scatter_env hpf = 0"
             "\<not> (pop_synth_minimal hpf \<and> pop_histories_is_None hpf)"
    and pf: "take 6 (pop_update_dt pf) = ''native''" "\<not> conserve_memory pf"
            "pop_quench pf = None"
  shows "\<exists>halos out. gen_halo_histories hpf draws raw = Inr halos
           \<and> gen_galaxy_histories pf halos = Inr out"
proof -
  obtain halos where h: "gen_halo_histories hpf draws raw = Inr halos"
    and s: "length (hh_z halos) = 2" "length (hh_t halos) = 2" "length (hh_Mh halos) = 3"
      "length (hh_MAR halos) = 3" "\<forall>row \<in> set (hh_Mh halos). length row = 2"
      "\<forall>row \<in> set (hh_MAR halos). length row = 2" "hh_SFR halos = None"
    using z Mh noMAR noSFR hpf
    by (simp add: gen_halo_histories_def mar_raw_def minimal_trim_def tile_rows_def
          neg_diff_def t_years_def Let_def)
  from s pf have "\<exists>out. gen_galaxy_histories pf halos = Inr out"
    by (simp add: gen_galaxy_histories_def Let_def)
  with h show ?thesis by blast
qed

text \<open>
  Claim C8. Three trajectories of halo mass \<open>10\<^sup>1\<^sup>0\<close>, \<open>10\<^sup>1\<^sup>1\<close> and \<open>10\<^sup>1\<^sup>2\<close> at two time
  steps, given by their masses (no accretion rate and no star formation rate supplied),
  with baryon fraction 0.16, star formation efficiency 0.05, no duty cycle and no
  quenching: whenever \<^verbatim>\<open>_gen_halo_histories\<close> and the deterministic evolver return (as
  they do under the settings of \<open>scenario_returns\<close>), the result has \<^verbatim>\<open>SFR[i,0] = 0\<close> at
  the first time index and \<^verbatim>\<open>Ms[i,1] = SFR[i,0] * dt * (1 - pop_mass_yield)\<close>, with
  \<^verbatim>\<open>dt\<close> the step in years. The accretion rate derived from constant masses is zero at
  the first time index.
\<close>

theorem scenario_end_to_end:
  assumes halos: "gen_halo_histories hpf draws raw = Inr halos"
    and run: "gen_galaxy_histories pf halos = Inr out"
    and Mh: "raw_Mh raw = [[10 ^ 10, 10 ^ 10], [10 ^ 11, 10 ^ 11], [10 ^ 12, 10 ^ 12]]"
    and noMAR: "raw_MAR raw = None" "raw_MAR_tot raw = None"
    and noSFR: "raw_SFR raw = None"
    and pf: "fbar_over_fcdm pf = 16 / 100" "guide_SFE pf = (\<lambda>z Mh. 5 / 100)"
            "duty_off pf = None" "pop_quench pf = None"
    and i: "i < 3"
  shows "out_SFR out ! i ! 0 = 0
         \<and> out_Ms out ! i ! 1
             = out_SFR out ! i ! 0 * (\<bar>out_t out ! 1 - out_t out ! 0\<bar> * 10 ^ 6)
                 * (1 - pop_mass_yield pf)"
proof -
  from halos obtain mar0 where mar0: "mar_raw hpf raw = Inr mar0"
    by (auto simp: gen_halo_histories_def Let_def split: sum.splits)
  let ?t = "t_years hpf (raw_z raw)"
  from mar_raw_derived_params(4) [OF mar0 noMAR] Mh
  have "length (neg_diff ?t) = 1" by (simp add: neg_diff_def)
  then have Nz: "length (raw_z raw) = 2"
    by (simp add: neg_diff_def t_years_def length_np_diff)
  with Mh have "length (raw_Mh raw) \<noteq> length (raw_z raw)" by simp
  then have "length (raw_Mh raw) \<noteq> length (raw_z raw)
                 \<or> \<not> (pop_synth_minimal hpf \<and> pop_histories_is_None hpf)" by simp
  from gen_halo_histories_derived [OF halos noMAR this] mar0 noSFR
  have h: "halos = \<lparr>hh_z = raw_z raw,
                     hh_t = map (\<lambda>z. t_of_z hpf z / s_per_myr hpf) (raw_z raw),
                     hh_Mh = raw_Mh raw, hh_nh = raw_nh raw, hh_MAR = mar0,
                     hh_SFR = None\<rparr>" by simp
  from \<open>length (neg_diff ?t) = 1\<close> obtain d where d: "neg_diff ?t = [d]"
    by (cases "neg_diff ?t") auto
  from i have ci: "i = 0 \<or> i = 1 \<or> i = 2" by arith
  have rowM: "mar0 ! i = [tiny_MAR, 0]"
    using mar_raw_derived [OF mar0 noMAR] Mh ci d by (auto simp: neg_diff_def)
  have lm: "length mar0 = 3" using mar_raw_derived [OF mar0 noMAR] Mh by simp
  have rev0: "map rev mar0 ! i ! 0 = 0" using lm i rowM by simp
  from i Mh h have iN: "i < length (hh_Mh halos)" by simp
  from h Nz have Nt: "length (hh_z halos) = 2" by simp
  then have k0: "0 < length (hh_z halos)" by simp
  have lrow: "length (hh_Mh halos ! i) = 2" using h Mh ci by auto
  have duty0: "SFR_duty pf halos ! i ! 0 = 0"
    using h Mh i Nz rev0 pf(1,2,3)
    by (simp add: SFR_duty_def Let_def nth_tabulate2)
  have sfr0: "out_SFR out ! i ! 0 = 0"
    using gen_galaxy_histories_SFR [OF run iN k0] duty0 by simp
  from Ms_row_cumsum [OF run iN] Nt
  have "out_Ms out ! i ! 1
          = (\<Sum>j<1. SFR_duty pf halos ! i ! j * evolver_dt halos ! j * (1 - pop_mass_yield pf))"
    by simp
  with duty0 have "out_Ms out ! i ! 1 = 0" by simp
  with sfr0 show ?thesis by simp
qed

theorem scenario_end_to_end_witness:
  "gen_halo_histories mar_example_pf scenario_draws scenario_raw = Inr scenario_derived_halos
   \<and> gen_galaxy_histories scenario_pf scenario_derived_halos = Inr scenario_derived_out
   \<and> raw_Mh scenario_raw = [[10 ^ 10, 10 ^ 10], [10 ^ 11, 10 ^ 11], [10 ^ 12, 10 ^ 12]]
   \<and> raw_MAR scenario_raw = None \<and> raw_MAR_tot scenario_raw = None
   \<and> raw_SFR scenario_raw = None
   \<and> fbar_over_fcdm scenario_pf = 16 / 100 \<and> guide_SFE scenario_pf = (\<lambda>z Mh. 5 / 100)
   \<and> duty_off scenario_pf = None \<and> pop_quench scenario_pf = None
   \<and> (2::nat) < 3
   \<and> out_SFR scenario_derived_out ! 2 ! 0 = 0
   \<and> out_Ms scenario_derived_out ! 2 ! 1
       = out_SFR scenario_derived_out ! 2 ! 0
           * (\<bar>out_t scenario_derived_out ! 1 - out_t scenario_derived_out ! 0\<bar> * 10 ^ 6)
           * (1 - pop_mass_yield scenario_pf)"
proof -
  have m: "raw_Mh scenario_raw = [[10 ^ 10, 10 ^ 10], [10 ^ 11, 10 ^ 11], [10 ^ 12, 10 ^ 12]]"
    and n: "raw_MAR scenario_raw = None" "raw_MAR_tot scenario_raw = None"
    and f: "raw_SFR scenario_raw = None"
    by (simp_all add: scenario_raw_def)
  have p: "fbar_over_fcdm scenario_pf = 16 / 100" "guide_SFE scenario_pf = (\<lambda>z Mh. 5 / 100)"
      "duty_off scenario_pf = None" "pop_quench scenario_pf = None"
    by (simp_all add: scenario_pf_def)
  have i: "(2::nat) < 3" by simp
  note t = scenario_end_to_end [OF scenario_derived_halos_run scenario_derived_run m n f p i]
  show ?thesis
    by (intro conjI scenario_derived_halos_run scenario_derived_run m n f p i
          t [THEN conjunct1] t [THEN conjunct2])
qed

subsection \<open>Supernova bookkeeping in the cluster loop\<close>

lemma sum_list_update_add:
  "k < length xs \<Longrightarrow> sum_list (xs[k := xs ! k + v]) = sum_list xs + (v::real)"
proof (induction xs arbitrary: k)
  case Nil
  then show ?case by simp
next
  case (Cons x xs)
  then show ?case by (cases k) simp_all
qed

lemma nearest_future_less:
  assumes "idnum c < length (arr_t c)"
  shows "idnum c + nearest_future c delay < length (arr_t c)"
proof -
  let ?f = "map (\<lambda>t. \<bar>(t - arr_t c ! idnum c) - delay\<bar>) (drop (idnum c) (arr_t c))"
  from assms have "?f \<noteq> []" by simp
  then have "argmin_list ?f < length ?f" by (rule argmin_list_less)
  then show ?thesis by (simp add: nearest_future_def Let_def)
qed

lemma nearest_future_le:
  assumes "idnum c \<le> j" and "j < length (arr_t c)"
  shows "\<bar>arr_t c ! (idnum c + nearest_future c delay) - arr_t c ! idnum c - delay\<bar>
           \<le> \<bar>arr_t c ! j - arr_t c ! idnum c - delay\<bar>"
proof -
  let ?f = "map (\<lambda>t. \<bar>(t - arr_t c ! idnum c) - delay\<bar>) (drop (idnum c) (arr_t c))"
  let ?k = "argmin_list ?f"
  from assms have i: "idnum c < length (arr_t c)" by simp
  then have ne: "?f \<noteq> []" by simp
  then have k: "?k < length ?f" by (rule argmin_list_less)
  from assms have j: "j - idnum c < length ?f" by simp
  then have "?f ! ?k \<le> ?f ! (j - idnum c)" by (rule argmin_list_le)
  moreover have "?f ! ?k = \<bar>arr_t c ! (idnum c + ?k) - arr_t c ! idnum c - delay\<bar>"
    using k by simp
  moreover have "?f ! (j - idnum c) = \<bar>arr_t c ! j - arr_t c ! idnum c - delay\<bar>"
    using j assms by simp
  ultimately show ?thesis by (simp add: nearest_future_def Let_def)
qed

lemma nearest_future_le_all:
  assumes srt: "sorted (arr_t c)" and i: "idnum c < length (arr_t c)" and D: "0 \<le> delay"
    and j: "j < length (arr_t c)"
  shows "\<bar>arr_t c ! (idnum c + nearest_future c delay) - (arr_t c ! idnum c + delay)\<bar>
           \<le> \<bar>arr_t c ! j - (arr_t c ! idnum c + delay)\<bar>"
proof (cases "idnum c \<le> j")
  case True
  from nearest_future_le [OF True j, of delay] show ?thesis by (simp add: algebra_simps)
next
  case False
  then have "j \<le> idnum c" by simp
  with srt i have "arr_t c ! j \<le> arr_t c ! idnum c" by (simp add: sorted_nth_mono)
  with D have "\<bar>arr_t c ! idnum c - arr_t c ! idnum c - delay\<bar>
                 \<le> \<bar>arr_t c ! j - arr_t c ! idnum c - delay\<bar>" by simp
  moreover from nearest_future_le [of c "idnum c" delay] i
  have "\<bar>arr_t c ! (idnum c + nearest_future c delay) - arr_t c ! idnum c - delay\<bar>
          \<le> \<bar>arr_t c ! idnum c - arr_t c ! idnum c - delay\<bar>" by simp
  ultimately show ?thesis by (simp add: algebra_simps)
qed

lemma length_deposit_each: "length (deposit_each i0 is a) = length a"
  by (induction "is" arbitrary: a) simp_all

lemma nth_deposit_each:
  "\<forall>i \<in> set is. i0 + i < length a \<Longrightarrow> k < length a \<Longrightarrow>
     deposit_each i0 is a ! k = a ! k + real (length (filter (\<lambda>i. i0 + i = k) is))"
proof (induction "is" arbitrary: a)
  case Nil
  then show ?case by simp
next
  case (Cons i rest)
  let ?a = "a[i0 + i := a ! (i0 + i) + 1]"
  from Cons.prems have "\<forall>i \<in> set rest. i0 + i < length ?a" "k < length ?a" by simp_all
  then have "deposit_each i0 rest ?a ! k
               = ?a ! k + real (length (filter (\<lambda>i. i0 + i = k) rest))" by (rule Cons.IH)
  with Cons.prems show ?case by (simp add: nth_list_update)
qed

lemma sum_list_deposit_each:
  "\<forall>i \<in> set is. i0 + i < length a \<Longrightarrow>
     sum_list (deposit_each i0 is a) = sum_list a + real (length is)"
proof (induction "is" arbitrary: a)
  case Nil
  then show ?case by simp
next
  case (Cons i rest)
  let ?a = "a[i0 + i := a ! (i0 + i) + 1]"
  from Cons.prems have "\<forall>i \<in> set rest. i0 + i < length ?a" by simp
  then have "sum_list (deposit_each i0 rest ?a) = sum_list ?a + real (length rest)"
    by (rule Cons.IH)
  moreover from Cons.prems have "sum_list ?a = sum_list a + 1"
    by (simp add: sum_list_update_add)
  ultimately show ?case by simp
qed

lemma sne_feedback_keeps:
  assumes "sne_feedback c n d s = Inr s'"
  shows "Ms s' = Ms s" and "Mw s' = Mw s" and "N_SN_0 s \<le> N_SN_0 s'"
  using assms by (auto simp: sne_feedback_def Let_def split: if_splits)

lemma cluster_step_Next:
  assumes "cluster_step c d s = Next s'"
  shows "Ms s' = Ms s + Mc d" and "Ms s + Mc d + Mw s < Mg c"
  using assms
  by (auto simp: cluster_step_def Let_def sne_feedback_keeps(1)
           split: if_splits sum.splits)

lemma wind_nonneg:
  assumes "0 \<le> pop_coupling_sne (cpf c)" and "0 \<le> g_per_msun c" and "0 \<le> N_SN_p c"
    and "0 \<le> x"
  shows "0 \<le> 2 * (x + N_SN_p c) * 10 ^ 51 * pop_coupling_sne (cpf c) / (vesc c)\<^sup>2 / g_per_msun c"
  using assms by simp

lemma cluster_step_nonneg:
  assumes step: "cluster_step c d s = Next s'"
    and pos: "0 \<le> pop_coupling_sne (cpf c)" "0 \<le> g_per_msun c" "0 \<le> N_SN_p c"
    and inv: "0 \<le> Mw s" "0 \<le> N_SN_0 s"
  shows "0 \<le> Mw s' \<and> 0 \<le> N_SN_0 s'"
proof (cases "N_MS_of c d = 0")
  case True
  with step inv show ?thesis
    by (auto simp: cluster_step_def Let_def split: if_splits)
next
  case False
  let ?s1 = "s\<lparr>Ms := Ms s + Mc d,
               imf := (if pop_sample_imf (cpf c)
                       then add_hist (add_hist (imf s) (hist d)) (hist d) else imf s)\<rparr>"
  from step False obtain s2 where s2: "sne_feedback c (N_MS_of c d) d ?s1 = Inr s2"
    by (auto simp: cluster_step_def Let_def split: if_splits sum.splits)
  from sne_feedback_keeps(3) [OF s2] inv have n: "0 \<le> N_SN_0 s2" by simp
  have w: "0 \<le> 2 * (N_SN_0 s2 + N_SN_p c) * 10 ^ 51 * pop_coupling_sne (cpf c)
                 / (vesc c)\<^sup>2 / g_per_msun c"
    using pos n by (rule wind_nonneg)
  from step False s2 have "Mw s' = 2 * (N_SN_0 s2 + N_SN_p c) * 10 ^ 51 * pop_coupling_sne (cpf c)
                 / (vesc c)\<^sup>2 / g_per_msun c \<and> N_SN_0 s' = N_SN_0 s2"
    by (auto simp: cluster_step_def Let_def split: if_splits)
  with w n show ?thesis by simp
qed

lemma cluster_loop_formed_below:
  assumes pos: "0 \<le> pop_coupling_sne (cpf c)" "0 \<le> g_per_msun c" "0 \<le> N_SN_p c"
  shows "0 \<le> Mw s \<Longrightarrow> 0 \<le> N_SN_0 s \<Longrightarrow> cluster_loop c ds s = Some (Inr s')
           \<Longrightarrow> Ms s' = Ms s \<or> Ms s' < Mg c"
proof (induction ds arbitrary: s)
  case Nil
  then show ?case by (simp split: if_splits)
next
  case (Cons d ds)
  show ?case
  proof (cases "Mw s + Mw_rad s + Ms s < Mg c * pop_fstar_cloud (cpf c)")
    case False
    with Cons.prems show ?thesis by simp
  next
    case True
    show ?thesis
    proof (cases "cluster_step c d s")
      case Break
      with True Cons.prems show ?thesis by simp
    next
      case (Raise e)
      with True Cons.prems show ?thesis by simp
    next
      case (Next s1)
      with True Cons.prems have run: "cluster_loop c ds s1 = Some (Inr s')" by simp
      from cluster_step_nonneg [OF Next pos Cons.prems(1,2)]
      have inv: "0 \<le> Mw s1" "0 \<le> N_SN_0 s1" by simp_all
      from Cons.IH [OF inv run] have "Ms s' = Ms s1 \<or> Ms s' < Mg c" .
      moreover from cluster_step_Next [OF Next] Cons.prems(1) have "Ms s1 < Mg c" by simp
      ultimately show ?thesis by auto
    qed
  qed
qed


lemma example_mode1_run:
  "sne_feedback example_ctx_mode1 3 example_draw example_state
     = Inr (example_state\<lparr>arr_SN := [0, 3, 0, 0]\<rparr>)"
  by (simp add: example_ctx_mode1_def example_ctx_def example_pf_def example_draw_def example_state_def init_state_def cluster_step_def sne_feedback_def nearest_future_def N_MS_of_def add_hist_def step_dt_def Let_def)

lemma example_mode2_run:
  "sne_feedback example_ctx_mode2 2 example_draw example_state
     = Inr (example_state\<lparr>arr_SN := [1, 1, 0, 0], N_SN_0 := 1\<rparr>)"
  by (simp add: example_ctx_mode2_def example_ctx_def example_pf_def example_draw_def example_state_def init_state_def cluster_step_def sne_feedback_def nearest_future_def N_MS_of_def add_hist_def step_dt_def Let_def)

lemma example_overshoot_step:
  "cluster_step example_ctx example_draw example_state = Next overshoot_state"
  by (simp add: overshoot_state_def example_ctx_def example_pf_def example_draw_def example_state_def init_state_def cluster_step_def sne_feedback_def nearest_future_def N_MS_of_def add_hist_def step_dt_def Let_def)

lemma example_overshoot_run:
  "cluster_loop example_ctx [example_draw] example_state = Some (Inr overshoot_state)"
  by (simp add: example_overshoot_step)
     (simp add: overshoot_state_def example_ctx_def example_pf_def example_state_def init_state_def)

lemma example_imf_mode2_step:
  "cluster_step example_ctx_imf_mode2 example_draw example_state = Next imf_mode2_state"
  by (simp add: example_ctx_imf_mode2_def imf_mode2_state_def example_ctx_def example_pf_def example_draw_def example_state_def init_state_def cluster_step_def sne_feedback_def nearest_future_def N_MS_of_def add_hist_def step_dt_def Let_def)

text \<open>
  Claim C1. With \<^verbatim>\<open>pop_delay_sne_feedback == 1\<close> and the IMF not sampled, on a time
  grid in ascending order, a cluster of \<open>n\<close> massive stars formed at a step of duration
  \<open>dt\<close> with mean delay \<open>D\<close>: if \<open>dt > D\<close> the count is added to the count of the current
  step \<^verbatim>\<open>N_SN_0\<close> and \<^verbatim>\<open>_arr_SN\<close> is unchanged; otherwise \<open>n\<close> is added to one slot
  \<open>k\<close> of \<^verbatim>\<open>_arr_SN\<close>, at or after the current step, whose time is nearest to
  \<open>t\<^sub>n\<^sub>o\<^sub>w + D\<close> among all slots, and nothing else changes. In both cases the count of the
  current step plus the sum of all slots grows by exactly \<open>n\<close>.
\<close>

theorem sne_mode1_single_slot:
  assumes mode: "pop_delay_sne_feedback (cpf c) = 1" "\<not> pop_sample_imf (cpf c)"
    and idx: "idnum c + 1 < length (arr_t c)" "length (arr_SN s) = length (arr_t c)"
    and srt: "sorted (arr_t c)"
  shows "(avg_sn_delay c < step_dt c \<longrightarrow>
            sne_feedback c n d s = Inr (s\<lparr>N_SN_0 := N_SN_0 s + real n\<rparr>))
         \<and> (\<not> avg_sn_delay c < step_dt c \<longrightarrow>
              (\<exists>k. idnum c \<le> k \<and> k < length (arr_t c)
                 \<and> sne_feedback c n d s
                     = Inr (s\<lparr>arr_SN := (arr_SN s)[k := arr_SN s ! k + real n]\<rparr>)
                 \<and> (\<forall>j < length (arr_t c).
                       \<bar>arr_t c ! k - (arr_t c ! idnum c + avg_sn_delay c)\<bar>
                         \<le> \<bar>arr_t c ! j - (arr_t c ! idnum c + avg_sn_delay c)\<bar>)))
         \<and> (\<exists>s'. sne_feedback c n d s = Inr s'
                 \<and> N_SN_0 s' + sum_list (arr_SN s') = N_SN_0 s + sum_list (arr_SN s) + real n)"
proof (cases "avg_sn_delay c < step_dt c")
  case True
  with mode have "sne_feedback c n d s = Inr (s\<lparr>N_SN_0 := N_SN_0 s + real n\<rparr>)"
    by (simp add: sne_feedback_def Let_def)
  with True show ?thesis by simp
next
  case False
  let ?k = "idnum c + nearest_future c (avg_sn_delay c)"
  from idx have i: "idnum c < length (arr_t c)" by simp
  have k: "?k < length (arr_t c)" using i by (rule nearest_future_less)
  from srt idx have "arr_t c ! idnum c \<le> arr_t c ! (idnum c + 1)"
    by (simp add: sorted_nth_mono)
  with False have D: "0 \<le> avg_sn_delay c" by (simp add: step_dt_def)
  have r: "sne_feedback c n d s = Inr (s\<lparr>arr_SN := (arr_SN s)[?k := arr_SN s ! ?k + real n]\<rparr>)"
    using mode False by (simp add: sne_feedback_def Let_def)
  have near: "\<forall>j < length (arr_t c).
                \<bar>arr_t c ! ?k - (arr_t c ! idnum c + avg_sn_delay c)\<bar>
                  \<le> \<bar>arr_t c ! j - (arr_t c ! idnum c + avg_sn_delay c)\<bar>"
    using nearest_future_le_all [OF srt i D] by blast
  have tot: "N_SN_0 (s\<lparr>arr_SN := (arr_SN s)[?k := arr_SN s ! ?k + real n]\<rparr>)
               + sum_list (arr_SN (s\<lparr>arr_SN := (arr_SN s)[?k := arr_SN s ! ?k + real n]\<rparr>))
             = N_SN_0 s + sum_list (arr_SN s) + real n"
    using k idx by (simp add: sum_list_update_add)
  have ex: "\<exists>k. idnum c \<le> k \<and> k < length (arr_t c)
                 \<and> sne_feedback c n d s
                     = Inr (s\<lparr>arr_SN := (arr_SN s)[k := arr_SN s ! k + real n]\<rparr>)
                 \<and> (\<forall>j < length (arr_t c).
                       \<bar>arr_t c ! k - (arr_t c ! idnum c + avg_sn_delay c)\<bar>
                         \<le> \<bar>arr_t c ! j - (arr_t c ! idnum c + avg_sn_delay c)\<bar>)"
  proof (intro exI conjI)
    show "idnum c \<le> ?k" by simp
    show "?k < length (arr_t c)" by (rule k)
    show "sne_feedback c n d s
            = Inr (s\<lparr>arr_SN := (arr_SN s)[?k := arr_SN s ! ?k + real n]\<rparr>)" by (rule r)
    show "\<forall>j < length (arr_t c).
                \<bar>arr_t c ! ?k - (arr_t c ! idnum c + avg_sn_delay c)\<bar>
                  \<le> \<bar>arr_t c ! j - (arr_t c ! idnum c + avg_sn_delay c)\<bar>" by (rule near)
  qed
  from r tot have "\<exists>s'. sne_feedback c n d s = Inr s'
                 \<and> N_SN_0 s' + sum_list (arr_SN s') = N_SN_0 s + sum_list (arr_SN s) + real n"
    by blast
  with False ex show ?thesis by simp
qed

theorem sne_mode1_single_slot_witness:
  "pop_delay_sne_feedback (cpf example_ctx_mode1) = 1
   \<and> \<not> pop_sample_imf (cpf example_ctx_mode1)
   \<and> idnum example_ctx_mode1 + 1 < length (arr_t example_ctx_mode1)
   \<and> length (arr_SN example_state) = length (arr_t example_ctx_mode1)
   \<and> sorted (arr_t example_ctx_mode1)
   \<and> \<not> avg_sn_delay example_ctx_mode1 < step_dt example_ctx_mode1
   \<and> sne_feedback example_ctx_mode1 3 example_draw example_state
       = Inr (example_state\<lparr>arr_SN := [0, 3, 0, 0]\<rparr>)"
proof -
  have m: "pop_delay_sne_feedback (cpf example_ctx_mode1) = 1"
      "\<not> pop_sample_imf (cpf example_ctx_mode1)"
    by (simp_all add: example_ctx_mode1_def example_ctx_def example_pf_def)
  have i: "idnum example_ctx_mode1 + 1 < length (arr_t example_ctx_mode1)"
      "length (arr_SN example_state) = length (arr_t example_ctx_mode1)"
    by (simp_all add: example_ctx_mode1_def example_ctx_def example_state_def init_state_def)
  have s: "sorted (arr_t example_ctx_mode1)"
    by (simp add: example_ctx_mode1_def example_ctx_def)
  have d: "\<not> avg_sn_delay example_ctx_mode1 < step_dt example_ctx_mode1"
    by (simp add: example_ctx_mode1_def example_ctx_def step_dt_def)
  have all: "pop_delay_sne_feedback (cpf example_ctx_mode1) = 1
   \<and> \<not> pop_sample_imf (cpf example_ctx_mode1)
   \<and> idnum example_ctx_mode1 + 1 < length (arr_t example_ctx_mode1)
   \<and> length (arr_SN example_state) = length (arr_t example_ctx_mode1)
   \<and> sorted (arr_t example_ctx_mode1)
   \<and> \<not> avg_sn_delay example_ctx_mode1 < step_dt example_ctx_mode1
   \<and> sne_feedback example_ctx_mode1 3 example_draw example_state
       = Inr (example_state\<lparr>arr_SN := [0, 3, 0, 0]\<rparr>)"
    by (intro conjI m i s d example_mode1_run)
  show ?thesis
    using sne_mode1_single_slot [OF m i s, of 3 example_draw] by - (rule all)
qed

text \<open>
  Claim C2, as stated, fails. With delays of 1 and 12 Myr on a grid of 10 Myr the first
  supernova resolves to the current step: it is added to \<^verbatim>\<open>N_SN_0\<close> and also to the slot
  of the current step of \<^verbatim>\<open>_arr_SN\<close>, so the immediate count plus the deposits is 3 for 2
  massive stars.
\<close>

theorem sne_mode2_double_count_counterexample:
  "sne_feedback example_ctx_mode2 2 example_draw example_state
     = Inr (example_state\<lparr>arr_SN := [1, 1, 0, 0], N_SN_0 := 1\<rparr>)
   \<and> length (delays example_draw) = 2
   \<and> arr_SN example_state = [0, 0, 0, 0] \<and> N_SN_0 example_state = 0
   \<and> (1 :: real) + sum_list [1, 1, 0, 0] \<noteq> 2"
  using example_mode2_run
  by (simp add: example_draw_def example_state_def init_state_def)

text \<open>
  Claim C2, amended. With \<^verbatim>\<open>pop_delay_sne_feedback == 2\<close>, for the delays drawn for a
  cluster: every supernova is deposited, by one, into the slot of \<^verbatim>\<open>_arr_SN\<close> at or after
  the current step whose time is closest to \<open>t\<^sub>n\<^sub>o\<^sub>w + delay\<close> among the slots from the
  current step on, the slot of the current step included; those that resolve to the
  current step are added to the immediate count \<^verbatim>\<open>N_SN_0\<close> as well. So the deposits made
  equal the number of delays drawn, and the immediate count grows by the number of delays
  that resolve to the current step.
\<close>

theorem sne_mode2_every_delay_deposited:
  assumes mode: "pop_delay_sne_feedback (cpf c) = 2"
    and idx: "idnum c < length (arr_t c)" "length (arr_SN s) = length (arr_t c)"
  shows "\<exists>s'. sne_feedback c n d s = Inr s'
           \<and> (\<forall>k < length (arr_t c).
                 arr_SN s' ! k = arr_SN s ! k
                   + real (length (filter (\<lambda>delay. idnum c + nearest_future c delay = k) (delays d))))
           \<and> N_SN_0 s' = N_SN_0 s
                 + real (length (filter (\<lambda>delay. nearest_future c delay = 0) (delays d)))
           \<and> sum_list (arr_SN s') = sum_list (arr_SN s) + real (length (delays d))
           \<and> (\<forall>delay \<in> set (delays d).
                 idnum c + nearest_future c delay < length (arr_t c)
                 \<and> (\<forall>j. idnum c \<le> j \<and> j < length (arr_t c) \<longrightarrow>
                       \<bar>arr_t c ! (idnum c + nearest_future c delay) - arr_t c ! idnum c - delay\<bar>
                         \<le> \<bar>arr_t c ! j - arr_t c ! idnum c - delay\<bar>))"
proof -
  let ?is = "map (nearest_future c) (delays d)"
  let ?s' = "s\<lparr>arr_SN := deposit_each (idnum c) ?is (arr_SN s),
               N_SN_0 := N_SN_0 s + real (length (filter (\<lambda>i. i = 0) ?is))\<rparr>"
  have r: "sne_feedback c n d s = Inr ?s'"
    using mode by (simp add: sne_feedback_def Let_def)
  have inr: "\<forall>i \<in> set ?is. idnum c + i < length (arr_SN s)"
    using nearest_future_less [OF idx(1)] idx(2) by auto
  have slots: "\<forall>k < length (arr_t c).
                 arr_SN ?s' ! k = arr_SN s ! k
                   + real (length (filter (\<lambda>delay. idnum c + nearest_future c delay = k) (delays d)))"
  proof (intro allI impI)
    fix k assume "k < length (arr_t c)"
    with idx have "k < length (arr_SN s)" by simp
    with inr have "deposit_each (idnum c) ?is (arr_SN s) ! k
        = arr_SN s ! k + real (length (filter (\<lambda>i. idnum c + i = k) ?is))"
      by (rule nth_deposit_each)
    then show "arr_SN ?s' ! k = arr_SN s ! k
                   + real (length (filter (\<lambda>delay. idnum c + nearest_future c delay = k) (delays d)))"
      by (simp add: filter_map comp_def)
  qed
  have now: "N_SN_0 ?s' = N_SN_0 s
                 + real (length (filter (\<lambda>delay. nearest_future c delay = 0) (delays d)))"
    by (simp add: filter_map comp_def)
  have tot: "sum_list (arr_SN ?s') = sum_list (arr_SN s) + real (length (delays d))"
    using sum_list_deposit_each [OF inr] by simp
  have near: "\<forall>delay \<in> set (delays d).
                 idnum c + nearest_future c delay < length (arr_t c)
                 \<and> (\<forall>j. idnum c \<le> j \<and> j < length (arr_t c) \<longrightarrow>
                       \<bar>arr_t c ! (idnum c + nearest_future c delay) - arr_t c ! idnum c - delay\<bar>
                         \<le> \<bar>arr_t c ! j - arr_t c ! idnum c - delay\<bar>)"
    using nearest_future_less [OF idx(1)] nearest_future_le by blast
  show ?thesis
  proof (intro exI conjI)
    show "sne_feedback c n d s = Inr ?s'" by (rule r)
  qed (rule slots now tot near)+
qed

theorem sne_mode2_every_delay_deposited_witness:
  "pop_delay_sne_feedback (cpf example_ctx_mode2) = 2
   \<and> idnum example_ctx_mode2 < length (arr_t example_ctx_mode2)
   \<and> length (arr_SN example_state) = length (arr_t example_ctx_mode2)
   \<and> sne_feedback example_ctx_mode2 2 example_draw example_state
       = Inr (example_state\<lparr>arr_SN := [1, 1, 0, 0], N_SN_0 := 1\<rparr>)"
proof -
  have m: "pop_delay_sne_feedback (cpf example_ctx_mode2) = 2"
    by (simp add: example_ctx_mode2_def example_ctx_def example_pf_def)
  have i: "idnum example_ctx_mode2 < length (arr_t example_ctx_mode2)"
      "length (arr_SN example_state) = length (arr_t example_ctx_mode2)"
    by (simp_all add: example_ctx_mode2_def example_ctx_def example_state_def init_state_def)
  have all: "pop_delay_sne_feedback (cpf example_ctx_mode2) = 2
   \<and> idnum example_ctx_mode2 < length (arr_t example_ctx_mode2)
   \<and> length (arr_SN example_state) = length (arr_t example_ctx_mode2)
   \<and> sne_feedback example_ctx_mode2 2 example_draw example_state
       = Inr (example_state\<lparr>arr_SN := [1, 1, 0, 0], N_SN_0 := 1\<rparr>)"
    by (intro conjI m i example_mode2_run)
  show ?thesis
    using sne_mode2_every_delay_deposited [OF m i, of 2 example_draw] by - (rule all)
qed

subsection \<open>The gas budget of the cluster loop\<close>

text \<open>
  Claim C3, as stated, fails. With \<^verbatim>\<open>pop_fstar_cloud = 1\<close> and 1000 solar masses of gas,
  a cluster of 10 solar masses is formed; its one supernova then sets the wind mass to
  \<open>2 \<times> 10\<^sup>5\<^sup>1 / (10\<^sup>6)\<^sup>2 / (1.989 \<times> 10\<^sup>3\<^sup>3)\<close>, about \<open>10\<^sup>6\<close> solar masses, and the loop ends
  with formed mass plus wind mass far above the gas mass.
\<close>

theorem cluster_loop_overshoot_counterexample:
  "pop_fstar_cloud (cpf example_ctx) = 1
   \<and> cluster_loop example_ctx [example_draw] example_state = Some (Inr overshoot_state)
   \<and> Mg example_ctx < Ms overshoot_state + Mw overshoot_state"
  using example_overshoot_run
  by (simp add: overshoot_state_def example_ctx_def example_pf_def)

text \<open>
  Claim C3, amended. For every state of the loop with non-negative wind mass and
  supernova count (coupling, earlier supernovae and the mass unit non-negative), and any
  draws: a proposed cluster whose mass would bring formed mass plus the wind mass computed
  so far to or beyond \<^verbatim>\<open>Mg\<close> is rejected and the loop breaks without forming it; a
  cluster that is formed leaves formed mass plus the wind mass as it stood before that
  cluster below \<^verbatim>\<open>Mg\<close>; and when the loop ends the formed stellar mass is either what it
  was at the start or below \<^verbatim>\<open>Mg\<close>. Nothing is said of formed mass plus the wind mass
  recomputed after the last cluster.
\<close>

theorem cluster_rejected_before_overshoot:
  assumes pos: "0 \<le> pop_coupling_sne (cpf c)" "0 \<le> g_per_msun c" "0 \<le> N_SN_p c"
    and inv: "0 \<le> Mw s" "0 \<le> N_SN_0 s"
  shows "(Mg c \<le> Ms s + Mc d + Mw s \<longrightarrow>
            cluster_step c d s = Break \<and> cluster_loop c (d # ds) s = Some (Inr s))
         \<and> (\<forall>s1. cluster_step c d s = Next s1 \<longrightarrow>
               Ms s1 = Ms s + Mc d \<and> Ms s1 + Mw s < Mg c)
         \<and> (\<forall>s'. cluster_loop c ds s = Some (Inr s') \<longrightarrow> Ms s' = Ms s \<or> Ms s' < Mg c)"
proof (intro conjI allI impI)
  assume "Mg c \<le> Ms s + Mc d + Mw s"
  then show "cluster_step c d s = Break" by (simp add: cluster_step_def)
  then show "cluster_loop c (d # ds) s = Some (Inr s)" by simp
next
  fix s1 assume n: "cluster_step c d s = Next s1"
  from cluster_step_Next [OF n] show "Ms s1 = Ms s + Mc d" "Ms s1 + Mw s < Mg c" by simp_all
next
  fix s' assume "cluster_loop c ds s = Some (Inr s')"
  with cluster_loop_formed_below [OF pos inv] show "Ms s' = Ms s \<or> Ms s' < Mg c" by blast
qed


theorem cluster_rejected_before_overshoot_witness:
  "0 \<le> pop_coupling_sne (cpf example_ctx) \<and> 0 \<le> g_per_msun example_ctx
   \<and> 0 \<le> N_SN_p example_ctx \<and> 0 \<le> Mw example_state \<and> 0 \<le> N_SN_0 example_state
   \<and> Mg example_ctx \<le> Ms example_state + Mc example_draw_big + Mw example_state
   \<and> cluster_step example_ctx example_draw_big example_state = Break
   \<and> cluster_step example_ctx example_draw example_state = Next overshoot_state
   \<and> Ms overshoot_state = Ms example_state + Mc example_draw
   \<and> Ms overshoot_state + Mw example_state < Mg example_ctx
   \<and> cluster_loop example_ctx [example_draw] example_state = Some (Inr overshoot_state)
   \<and> (Ms overshoot_state = Ms example_state \<or> Ms overshoot_state < Mg example_ctx)"
proof -
  have p: "0 \<le> pop_coupling_sne (cpf example_ctx)" "0 \<le> g_per_msun example_ctx"
      "0 \<le> N_SN_p example_ctx"
    by (simp_all add: example_ctx_def example_pf_def)
  have v: "0 \<le> Mw example_state" "0 \<le> N_SN_0 example_state"
    by (simp_all add: example_state_def init_state_def)
  have big: "Mg example_ctx \<le> Ms example_state + Mc example_draw_big + Mw example_state"
    by (simp add: example_ctx_def example_state_def init_state_def example_draw_big_def)
  note t1 = cluster_rejected_before_overshoot [OF p v, of example_draw_big "[]"]
  note t2 = cluster_rejected_before_overshoot [OF p v, of example_draw "[example_draw]"]
  from t1 big have b: "cluster_step example_ctx example_draw_big example_state = Break"
    by blast
  from t2 example_overshoot_step
  have n: "Ms overshoot_state = Ms example_state + Mc example_draw"
      "Ms overshoot_state + Mw example_state < Mg example_ctx"
    by blast+
  from t2 example_overshoot_run
  have l: "Ms overshoot_state = Ms example_state \<or> Ms overshoot_state < Mg example_ctx"
    by blast
  show ?thesis
    by (intro conjI p v big b example_overshoot_step n example_overshoot_run l)
qed

subsection \<open>Unsupported combinations of feedback parameters\<close>

text \<open>
  Claim C9, as stated, fails. With a sampled IMF and \<^verbatim>\<open>pop_delay_sne_feedback == 2\<close> a
  cluster with two massive stars is formed and its supernovae are scheduled; nothing is
  raised.
\<close>

theorem sampled_imf_mode2_counterexample:
  "pop_sample_imf (cpf example_ctx_imf_mode2)
   \<and> pop_delay_sne_feedback (cpf example_ctx_imf_mode2) = 2
   \<and> N_MS_of example_ctx_imf_mode2 example_draw = 2
   \<and> cluster_step example_ctx_imf_mode2 example_draw example_state = Next imf_mode2_state
   \<and> cluster_loop example_ctx_imf_mode2 [example_draw] example_state
       = Some (Inr imf_mode2_state)"
  using example_imf_mode2_step
  by (simp add: example_ctx_imf_mode2_def example_ctx_def example_pf_def example_draw_def
        example_state_def init_state_def imf_mode2_state_def N_MS_of_def)

text \<open>
  Claim C9, amended. When a proposed cluster is accepted and has at least one massive
  star, the engine raises, rather than computing feedback, for every configuration that
  combines a sampled IMF with \<^verbatim>\<open>pop_delay_sne_feedback == 1\<close> and for every configuration
  that combines radiative feedback with \<^verbatim>\<open>pop_delay_rad_feedback >= 1\<close>; the loop then
  ends with that exception.
\<close>

theorem unsupported_feedback_raises:
  assumes accept: "Ms s + Mc d + Mw s < Mg c" and stars: "N_MS_of c d \<noteq> 0"
    and combo: "(pop_sample_imf (cpf c) \<and> pop_delay_sne_feedback (cpf c) = 1)
                \<or> (pop_feedback_rad (cpf c) \<and> pop_delay_rad_feedback (cpf c) \<ge> 1)"
  shows "cluster_step c d s = Raise TypeError
         \<and> (Mw s + Mw_rad s + Ms s < Mg c * pop_fstar_cloud (cpf c) \<longrightarrow>
              cluster_loop c (d # ds) s = Some (Inl TypeError))"
proof -
  have "cluster_step c d s = Raise TypeError"
    using accept stars combo
    by (auto simp: cluster_step_def sne_feedback_def Let_def split: sum.splits)
  then show ?thesis by simp
qed

theorem unsupported_feedback_raises_witness:
  "Ms example_state + Mc example_draw + Mw example_state < Mg example_ctx_imf_mode1
   \<and> N_MS_of example_ctx_imf_mode1 example_draw \<noteq> 0
   \<and> pop_sample_imf (cpf example_ctx_imf_mode1)
   \<and> pop_delay_sne_feedback (cpf example_ctx_imf_mode1) = 1
   \<and> cluster_step example_ctx_imf_mode1 example_draw example_state = Raise TypeError
   \<and> Ms example_state + Mc example_draw + Mw example_state < Mg example_ctx_rad_delay
   \<and> N_MS_of example_ctx_rad_delay example_draw \<noteq> 0
   \<and> pop_feedback_rad (cpf example_ctx_rad_delay)
   \<and> pop_delay_rad_feedback (cpf example_ctx_rad_delay) \<ge> 1
   \<and> cluster_step example_ctx_rad_delay example_draw example_state = Raise TypeError"
proof -
  have a1: "Ms example_state + Mc example_draw + Mw example_state < Mg example_ctx_imf_mode1"
    and n1: "N_MS_of example_ctx_imf_mode1 example_draw \<noteq> 0"
    and c1: "pop_sample_imf (cpf example_ctx_imf_mode1)"
      "pop_delay_sne_feedback (cpf example_ctx_imf_mode1) = 1"
    by (simp_all add: example_ctx_imf_mode1_def example_ctx_def example_pf_def example_draw_def
          example_state_def init_state_def N_MS_of_def)
  have a2: "Ms example_state + Mc example_draw + Mw example_state < Mg example_ctx_rad_delay"
    and n2: "N_MS_of example_ctx_rad_delay example_draw \<noteq> 0"
    and c2: "pop_feedback_rad (cpf example_ctx_rad_delay)"
      "pop_delay_rad_feedback (cpf example_ctx_rad_delay) \<ge> 1"
    by (simp_all add: example_ctx_rad_delay_def example_ctx_def example_pf_def example_draw_def
          example_state_def init_state_def N_MS_of_def)
  from c1 have k1: "(pop_sample_imf (cpf example_ctx_imf_mode1)
                      \<and> pop_delay_sne_feedback (cpf example_ctx_imf_mode1) = 1)
                \<or> (pop_feedback_rad (cpf example_ctx_imf_mode1)
                      \<and> pop_delay_rad_feedback (cpf example_ctx_imf_mode1) \<ge> 1)" by simp
  from c2 have k2: "(pop_sample_imf (cpf example_ctx_rad_delay)
                      \<and> pop_delay_sne_feedback (cpf example_ctx_rad_delay) = 1)
                \<or> (pop_feedback_rad (cpf example_ctx_rad_delay)
                      \<and> pop_delay_rad_feedback (cpf example_ctx_rad_delay) \<ge> 1)" by simp
  from unsupported_feedback_raises [OF a1 n1 k1, of "[]"]
  have r1: "cluster_step example_ctx_imf_mode1 example_draw example_state = Raise TypeError"
    by (rule conjunct1)
  from unsupported_feedback_raises [OF a2 n2 k2, of "[]"]
  have r2: "cluster_step example_ctx_rad_delay example_draw example_state = Raise TypeError"
    by (rule conjunct1)
  show ?thesis by (intro conjI a1 n1 c1 r1 a2 n2 c2 r2)
qed

end
